theory Spec2Isabelle
  imports Complex_Main "HOL-Library.Word" "HOL-Library.Char_ord" "HOL-Library.AList"
begin

section \<open>JavaScript values\<close>

text \<open>
  Numbers: an exact rational, or one of the three values that are none. The program's
  arithmetic (rates, a remainder, unary plus on short decimal strings) is exact on these.
\<close>

datatype number = Num rat | Infinity | NegInfinity | NaN

text \<open>
  The quotient of two counts, with what JavaScript yields on a zero divisor
  (\<open>Infinity\<close> for a positive dividend, \<open>NaN\<close> for zero).
\<close>

definition js_div :: "nat \<Rightarrow> nat \<Rightarrow> number" where
  "js_div a b = (if b = 0 then (if a = 0 then NaN else Infinity) else Num (of_nat a / of_nat b))"

text \<open>The comparison \<open>x > y\<close> of a rate with a configured limit.\<close>

fun js_gt :: "number \<Rightarrow> rat \<Rightarrow> bool" where
  "js_gt (Num q) y = (q > y)"
| "js_gt Infinity y = True"
| "js_gt NegInfinity y = False"
| "js_gt NaN y = False"

text \<open>
  Values that travel over the wire or sit in plain objects. An object is an association
  list of its properties in insertion order, with unique keys.
\<close>

datatype jsval =
    JUndefined
  | JNull
  | JBool bool
  | JNum number
  | JStr string
  | JArr "jsval list"
  | JObj "(string \<times> jsval) list"

text \<open>ToBoolean: what \<open>if (v)\<close> and \<open>!v\<close> test.\<close>

fun truthy :: "jsval \<Rightarrow> bool" where
  "truthy JUndefined = False"
| "truthy JNull = False"
| "truthy (JBool b) = b"
| "truthy (JNum n) = (n \<noteq> Num 0 \<and> n \<noteq> NaN)"
| "truthy (JStr s) = (s \<noteq> [])"
| "truthy (JArr xs) = True"
| "truthy (JObj kvs) = True"

text \<open>Number.prototype.toString for a natural number (decimal digits).\<close>

definition digit_char :: "nat \<Rightarrow> char" where
  "digit_char d = ''0123456789'' ! d"

function string_of_nat :: "nat \<Rightarrow> string" where
  "string_of_nat n =
     (if n < 10 then [digit_char n] else string_of_nat (n div 10) @ [digit_char (n mod 10)])"
  by pat_completeness auto
termination
  by (relation "measure id") auto

declare string_of_nat.simps [simp del]

text \<open>The exceptions of the program, by class; the strings are the constructor arguments.\<close>

datatype error =
    Error string
  | RangeError string
  | TypeError string
  | RPCResponseError string string
  | RPCTimeoutError string string
  | InvalidPeerError string
  | InvalidRPCResponseError string

section \<open>Address utilities (src/utils.js)\<close>

subsection \<open>String operations of the platform\<close>

text \<open>
  Strings are lists of characters; the addresses the program handles are ASCII.
  \<open>s.split(c)\<close> for a one-character separator: never empty, \<open>''''.split(c)\<close> is \<open>['''']\<close>.
\<close>

fun split_on :: "char \<Rightarrow> string \<Rightarrow> string list" where
  "split_on c [] = [[]]"
| "split_on c (x # xs) =
     (if x = c then [] # split_on c xs
      else (x # hd (split_on c xs)) # tl (split_on c xs))"

text \<open>\<open>parts.join(sep)\<close>.\<close>

fun join :: "string \<Rightarrow> string list \<Rightarrow> string" where
  "join sep [] = []"
| "join sep [p] = p"
| "join sep (p # q # ps) = p @ sep @ join sep (q # ps)"

text \<open>\<open>s.replace(/::/g, r)\<close>: every occurrence, left to right, without overlap.\<close>

fun replaceDoubleColon :: "string \<Rightarrow> string \<Rightarrow> string" where
  "replaceDoubleColon r (a # b # xs) =
     (if a = CHR '':'' \<and> b = CHR '':'' then r @ replaceDoubleColon r xs
      else a # replaceDoubleColon r (b # xs))"
| "replaceDoubleColon r xs = xs"

text \<open>\<open>s.repeat(n)\<close> throws a RangeError on a negative count.\<close>

definition repeat :: "string \<Rightarrow> int \<Rightarrow> error + string" where
  "repeat s n =
     (if n < 0 then Inl (RangeError (''Invalid count value: -'' @ string_of_nat (nat (- n))))
      else Inr (concat (replicate (nat n) s)))"

definition isDigit :: "char \<Rightarrow> bool" where
  "isDigit c = (CHR ''0'' \<le> c \<and> c \<le> CHR ''9'')"

definition isHexDigit :: "char \<Rightarrow> bool" where
  "isHexDigit c =
     (isDigit c \<or> (CHR ''a'' \<le> c \<and> c \<le> CHR ''f'') \<or> (CHR ''A'' \<le> c \<and> c \<le> CHR ''F''))"

definition digitValue :: "char \<Rightarrow> nat" where
  "digitValue c =
     (if isDigit c then of_char c - 48
      else if CHR ''a'' \<le> c \<and> c \<le> CHR ''f'' then of_char c - 87
      else of_char c - 55)"

definition isRadixDigit :: "nat \<Rightarrow> char \<Rightarrow> bool" where
  "isRadixDigit radix c = (if radix = 16 then isHexDigit c else isDigit c)"

text \<open>The white space \<open>parseInt\<close> skips, among the characters below 256.\<close>

definition isWhiteSpace :: "char \<Rightarrow> bool" where
  "isWhiteSpace c = (of_char c \<in> {9, 10, 11, 12, 13, 32, 160 :: nat})"

definition digitsValue :: "nat \<Rightarrow> string \<Rightarrow> nat" where
  "digitsValue radix ds = foldl (\<lambda>acc c. acc * radix + digitValue c) 0 ds"

text \<open>
  \<open>parseInt(s, 16)\<close> and \<open>parseInt(s)\<close> (radix 10 here): leading white space, a sign, a
  \<open>0x\<close> prefix (which also turns the missing radix into 16), then the longest prefix of
  digits; \<open>None\<close> is \<open>NaN\<close>. The value is exact (a JavaScript number is, up to
  \<open>2^53\<close>).
\<close>

definition parseInt :: "nat \<Rightarrow> string \<Rightarrow> int option" where
  "parseInt radix s =
     (let s1 = dropWhile isWhiteSpace s;
          negative = (take 1 s1 = ''-'');
          s2 = (if take 1 s1 = ''-'' \<or> take 1 s1 = ''+'' then drop 1 s1 else s1);
          prefixed = (take 2 s2 = ''0x'' \<or> take 2 s2 = ''0X'');
          r = (if prefixed then 16 else radix);
          s3 = (if prefixed then drop 2 s2 else s2);
          z = takeWhile (isRadixDigit r) s3
      in if z = [] then None
         else Some ((if negative then - 1 else 1) * int (digitsValue r z)))"

definition hexDigitChar :: "nat \<Rightarrow> char" where
  "hexDigitChar d = ''0123456789abcdef'' ! d"

function hexOfNat :: "nat \<Rightarrow> string" where
  "hexOfNat n = (if n < 16 then [hexDigitChar n] else hexOfNat (n div 16) @ [hexDigitChar (n mod 16)])"
  by pat_completeness auto
termination
  by (relation "measure id") auto

declare hexOfNat.simps [simp del]

text \<open>\<open>n.toString(16)\<close> of the result of \<open>parseInt\<close>.\<close>

definition toString16 :: "int option \<Rightarrow> string" where
  "toString16 v =
     (case v of
        None \<Rightarrow> ''NaN''
      | Some n \<Rightarrow> if n < 0 then ''-'' @ hexOfNat (nat (- n)) else hexOfNat (nat n))"

subsection \<open>\<open>net.isIPv4\<close> and \<open>net.isIPv6\<close>\<close>

text \<open>
  The two predicates of the platform, after the regular expressions of Node's
  \<open>net\<close> module. IPv4: four segments \<open>0..255\<close> without leading zeros, joined by dots.
\<close>

definition isV4Seg :: "string \<Rightarrow> bool" where
  "isV4Seg p =
     (p \<noteq> [] \<and> length p \<le> 3 \<and> list_all isDigit p \<and> (length p = 1 \<or> hd p \<noteq> CHR ''0'') \<and>
      digitsValue 10 p \<le> 255)"

definition isIPv4 :: "string \<Rightarrow> bool" where
  "isIPv4 s = (let ps = split_on CHR ''.'' s in length ps = 4 \<and> list_all isV4Seg ps)"

text \<open>
  IPv6: groups of one to four hexadecimal digits joined by colons, the last of which may
  be a dotted quad standing for two groups; either eight groups, or at most seven with one
  \<open>::\<close>. A zone suffix \<open>%...\<close> may follow.
\<close>

definition isV6Seg :: "string \<Rightarrow> bool" where
  "isV6Seg p = (p \<noteq> [] \<and> length p \<le> 4 \<and> list_all isHexDigit p)"

text \<open>
  The number of 16-bit groups a list of parts stands for, when all are hexadecimal
  groups but possibly the last, a dotted quad.
\<close>

definition v6Units :: "string list \<Rightarrow> nat option" where
  "v6Units ps =
     (if list_all isV6Seg ps then Some (length ps)
      else if ps \<noteq> [] \<and> list_all isV6Seg (butlast ps) \<and> isIPv4 (last ps)
           then Some (length ps + 1)
      else None)"

definition unitsBetween :: "nat \<Rightarrow> nat \<Rightarrow> string list \<Rightarrow> bool" where
  "unitsBetween lo hi ps = (case v6Units ps of None \<Rightarrow> False | Some u \<Rightarrow> lo \<le> u \<and> u \<le> hi)"

definition isIPv6Address :: "string \<Rightarrow> bool" where
  "isIPv6Address a =
     (let ps = split_on CHR '':'' a;
          left = takeWhile (\<lambda>p. p \<noteq> []) ps;
          rest = dropWhile (\<lambda>p. p \<noteq> []) ps
      in case rest of
           [] \<Rightarrow> v6Units ps = Some 8
         | g # right \<Rightarrow>
             if left = [] then
               (case right of
                  [] \<Rightarrow> False
                | g2 # right2 \<Rightarrow> g2 = [] \<and> (right2 = [[]] \<or> unitsBetween 1 7 right2))
             else
               list_all isV6Seg left \<and>
               (right = [[]] \<and> length left \<le> 7 \<or> unitsBetween 1 (7 - length left) right))"

definition isZoneChar :: "char \<Rightarrow> bool" where
  "isZoneChar c =
     (isDigit c \<or> (CHR ''a'' \<le> c \<and> c \<le> CHR ''z'') \<or> (CHR ''A'' \<le> c \<and> c \<le> CHR ''Z'') \<or>
      c = CHR ''-'' \<or> c = CHR ''.'' \<or> c = CHR '':'')"

definition isIPv6 :: "string \<Rightarrow> bool" where
  "isIPv6 s =
     (let a = takeWhile (\<lambda>c. c \<noteq> CHR ''%'') s;
          z = dropWhile (\<lambda>c. c \<noteq> CHR ''%'') s
      in isIPv6Address a \<and> (z = [] \<or> (tl z \<noteq> [] \<and> list_all isZoneChar (tl z))))"

subsection \<open>Normalization\<close>

definition IPV6_UNCOMPRESSED_PART_LENGTH :: int where
  "IPV6_UNCOMPRESSED_PART_LENGTH = 4"

definition IPV6_UNCOMPRESSED_COLON_COUNT :: int where
  "IPV6_UNCOMPRESSED_COLON_COUNT = 7"

datatype protocol = PROTOCOL_IPV4 | PROTOCOL_IPV6

record normalized =
  protocol :: protocol
  address :: string

text \<open>
  The template \<open>`::${':'.repeat(colonDiff)}`\<close> is built before \<open>replace\<close> runs, so a
  negative \<open>colonDiff\<close> throws whether or not the address holds a \<open>::\<close>.
\<close>

definition normalizeIPv6Address :: "string \<Rightarrow> error + string" where
  "normalizeIPv6Address ipv6Address =
     (let colonCount = int (count_list ipv6Address CHR '':'');
          colonDiff = IPV6_UNCOMPRESSED_COLON_COUNT - colonCount
      in case repeat '':'' colonDiff of
           Inl e \<Rightarrow> Inl e
         | Inr colons \<Rightarrow>
             (let fullColonAddress = replaceDoubleColon (''::'' @ colons) ipv6Address
              in Inr (join '':''
                   (map (\<lambda>part. if part = [] then ''0'' else toString16 (parseInt 16 part))
                      (split_on CHR '':'' fullColonAddress)))))"

text \<open>
  \<open>IPV6_HYBRID_REGEX\<close>, \<open>/ffff:([0-9]{1,3}[.][0-9]{1,3}[.][0-9]{1,3}[.][0-9]{1,3})$/\<close>: the
  dotted quad holds no colon and ends the string, so it is the part after the last
  colon, and \<open>ffff\<close> ends the part before it. The result is the captured quad.
\<close>

definition isDottedQuad :: "string \<Rightarrow> bool" where
  "isDottedQuad q =
     (let ps = split_on CHR ''.'' q
      in length ps = 4 \<and> list_all (\<lambda>p. p \<noteq> [] \<and> length p \<le> 3 \<and> list_all isDigit p) ps)"

definition matchHybrid :: "string \<Rightarrow> string option" where
  "matchHybrid s =
     (let ps = split_on CHR '':'' s
      in if 2 \<le> length ps \<and> take 4 (rev (last (butlast ps))) = ''ffff'' \<and> isDottedQuad (last ps)
         then Some (last ps) else None)"

definition normalizeAddress :: "string \<Rightarrow> error + normalized" where
  "normalizeAddress addr =
     (if isIPv6 addr then
        (case matchHybrid addr of
           Some quad \<Rightarrow> Inr \<lparr>protocol = PROTOCOL_IPV4, address = quad\<rparr>
         | None \<Rightarrow>
             (case normalizeIPv6Address addr of
                Inl e \<Rightarrow> Inl e
              | Inr a \<Rightarrow> Inr \<lparr>protocol = PROTOCOL_IPV6, address = a\<rparr>))
      else Inr \<lparr>protocol = PROTOCOL_IPV4, address = addr\<rparr>)"

subsection \<open>Network classes and bucket hashing\<close>

datatype network = NET_IPV4 | NET_IPV6 | NET_PRIVATE | NET_LOCAL | NET_OTHER

fun networkCode :: "network \<Rightarrow> 8 word" where
  "networkCode NET_IPV4 = 0"
| "networkCode NET_IPV6 = 1"
| "networkCode NET_PRIVATE = 2"
| "networkCode NET_LOCAL = 3"
| "networkCode NET_OTHER = 4"

text \<open>\<open>parseInt(parts[i])\<close>, where a missing part reads as \<open>undefined\<close> and parses to \<open>NaN\<close>.\<close>

definition parseIntAt :: "string list \<Rightarrow> nat \<Rightarrow> int option" where
  "parseIntAt parts i = (if i < length parts then parseInt 10 (parts ! i) else None)"

definition isPrivate :: "string \<Rightarrow> bool" where
  "isPrivate addr =
     (if isIPv4 addr then
        (let addressParts = split_on CHR ''.'' addr;
             addressFirstNumber = parseIntAt addressParts 0;
             addressSecondNumber = parseIntAt addressParts 1
         in addressFirstNumber = Some 10 \<or>
            (addressFirstNumber = Some 172 \<and>
             (case addressSecondNumber of None \<Rightarrow> False | Some n \<Rightarrow> 16 \<le> n \<and> n \<le> 31)))
      else
        (let firstAddressPart = hd (split_on CHR '':'' addr);
             addressPrefix = take 2 firstAddressPart
         in addressPrefix = ''fc'' \<or> addressPrefix = ''fd''))"

definition isLocal :: "string \<Rightarrow> error + bool" where
  "isLocal addr =
     (if isIPv4 addr then
        (let addressParts = split_on CHR ''.'' addr;
             addressFirstNumber = parseIntAt addressParts 0
         in Inr (addressFirstNumber = Some 127 \<or> addressFirstNumber = Some 0))
      else
        (case normalizeIPv6Address addr of
           Inl e \<Rightarrow> Inl e
         | Inr a \<Rightarrow> Inr (a = ''0:0:0:0:0:0:0:1'')))"

definition getNetwork :: "string \<Rightarrow> error + network" where
  "getNetwork addr =
     (case isLocal addr of
        Inl e \<Rightarrow> Inl e
      | Inr local \<Rightarrow>
          if local then Inr NET_LOCAL
          else if isPrivate addr then Inr NET_PRIVATE
          else if isIPv4 addr then Inr NET_IPV4
          else if isIPv6 addr then Inr NET_IPV6
          else Inr NET_OTHER)"

text \<open>
  \<open>Buffer.from(s, 'hex')\<close>: one byte for every pair of hexadecimal digits, up to the
  first pair that is not one.
\<close>

fun bufferFromHex :: "string \<Rightarrow> 8 word list" where
  "bufferFromHex (a # b # xs) =
     (if isHexDigit a \<and> isHexDigit b
      then of_nat (digitValue a * 16 + digitValue b) # bufferFromHex xs
      else [])"
| "bufferFromHex xs = []"

text \<open>Run a step that may throw over a list, left to right, and concatenate the buffers.\<close>

fun concatBuffers :: "('a \<Rightarrow> error + 8 word list) \<Rightarrow> 'a list \<Rightarrow> error + 8 word list" where
  "concatBuffers f [] = Inr []"
| "concatBuffers f (x # xs) =
     (case f x of
        Inl e \<Rightarrow> Inl e
      | Inr b \<Rightarrow> (case concatBuffers f xs of Inl e \<Rightarrow> Inl e | Inr bs \<Rightarrow> Inr (b @ bs)))"

definition getIPV6Bytes :: "string \<Rightarrow> error + 8 word list" where
  "getIPV6Bytes ipv6Address =
     (case normalizeIPv6Address ipv6Address of
        Inl e \<Rightarrow> Inl e
      | Inr normalizedAddress \<Rightarrow>
          concatBuffers
            (\<lambda>part.
               let lengthDiff = IPV6_UNCOMPRESSED_PART_LENGTH - int (length part)
               in case repeat ''0'' lengthDiff of
                    Inl e \<Rightarrow> Inl e
                  | Inr zeros \<Rightarrow> Inr (bufferFromHex (zeros @ part)))
            (split_on CHR '':'' normalizedAddress))"

text \<open>
  \<open>writeUInt8\<close> stores 0 for \<open>NaN\<close> and throws a RangeError outside \<open>0..255\<close>.
\<close>

definition writeUInt8 :: "int option \<Rightarrow> error + 8 word list" where
  "writeUInt8 v =
     (case v of
        None \<Rightarrow> Inr [0]
      | Some n \<Rightarrow>
          if n < 0 \<or> 255 < n then Inl (RangeError ''ERR_OUT_OF_RANGE'')
          else Inr [of_int n])"

definition getIPV4Bytes :: "string \<Rightarrow> error + 8 word list" where
  "getIPV4Bytes ipv4Address =
     concatBuffers (\<lambda>part. writeUInt8 (parseInt 10 part)) (split_on CHR ''.'' ipv4Address)"

datatype peerType = NEW_PEER | TRIED_PEER

record bucketOptions =
  secret :: "32 word"
  targetAddress :: string
  peerType :: peerType
  bucketCount :: nat

text \<open>\<open>writeUInt32BE\<close> and \<open>readUInt32BE(0)\<close> of a 32-byte digest.\<close>

definition writeUInt32BE :: "32 word \<Rightarrow> 8 word list" where
  "writeUInt32BE w = [ucast (drop_bit 24 w), ucast (drop_bit 16 w), ucast (drop_bit 8 w), ucast w]"

definition readUInt32BE :: "256 word \<Rightarrow> nat" where
  "readUInt32BE digest = unat (drop_bit 224 digest)"

text \<open>
  \<open>getBucketId\<close>. SHA-256 is taken as a parameter \<open>hash\<close>, from the bytes to the 256-bit
  digest. The remainder is by a positive \<open>bucketCount\<close>.
\<close>

definition getBucketId :: "(8 word list \<Rightarrow> 256 word) \<Rightarrow> bucketOptions \<Rightarrow> error + nat" where
  "getBucketId hash options =
     (let secretBytes = writeUInt32BE (secret options)
      in case getNetwork (targetAddress options) of
           Inl e \<Rightarrow> Inl e
         | Inr network \<Rightarrow>
             if network = NET_OTHER then Inl (Error ''IP address is unsupported.'')
             else
               (let networkBytes = [networkCode network]
                in if network = NET_LOCAL \<or> network = NET_PRIVATE then
                     Inr (readUInt32BE (hash (secretBytes @ networkBytes)) mod bucketCount options)
                   else
                     (case (if network = NET_IPV6 then getIPV6Bytes (targetAddress options)
                            else getIPV4Bytes (targetAddress options)) of
                        Inl e \<Rightarrow> Inl e
                      | Inr addressBytes \<Rightarrow>
                          Inr (readUInt32BE (hash (secretBytes @ networkBytes @ addressBytes))
                                 mod bucketCount options))))"

subsection \<open>Peer ids\<close>

text \<open>
  Of a peer's advertised facts the pool and the session read the address, the port and
  the passive flag.
\<close>

record peerInfo =
  ipAddress :: string
  wsPort :: nat
  isPassive :: bool

definition getPeerIdFromPeerInfo :: "string \<Rightarrow> nat \<Rightarrow> error + string" where
  "getPeerIdFromPeerInfo ip port =
     (case normalizeAddress ip of
        Inl e \<Rightarrow> Inl e
      | Inr n \<Rightarrow>
          if protocol n = PROTOCOL_IPV6
          then Inr (''['' @ address n @ '']:'' @ string_of_nat port)
          else Inr (address n @ '':'' @ string_of_nat port))"

subsection \<open>Properties of the address utilities\<close>

lemma getNetwork_eight_colons:
  "getNetwork ''1:2:3:4:5:6:7::'' = Inl (RangeError ''Invalid count value: -1'')"
  by code_simp

text \<open>
  Claim C4 at \<open>1:2:3:4:5:6:7::\<close>, an IPv6 address in which \<open>::\<close> stands for its last
  group. The address has eight colons, \<open>colonDiff\<close> is \<open>-1\<close>, and \<open>getBucketId\<close> ends in the
  RangeError of \<open>':'.repeat(-1)\<close>, for every secret, peer type and hash: no bucket and no
  unsupported-address error.
\<close>

theorem getBucketId_eight_colons:
  "isIPv6 ''1:2:3:4:5:6:7::'' \<and>
   getBucketId hash
     \<lparr>secret = s, targetAddress = ''1:2:3:4:5:6:7::'', peerType = t, bucketCount = 128\<rparr> =
     Inl (RangeError ''Invalid count value: -1'')"
proof -
  have "isIPv6 ''1:2:3:4:5:6:7::''" by code_simp
  then show ?thesis by (simp add: getBucketId_def getNetwork_eight_colons)
qed

text \<open>
  The same claim at an IPv6 address that ends in a dotted quad: it is classed as IPv6 and
  its address bytes are fourteen, the quad read as the one group \<open>1\<close>.
\<close>

lemma getIPV6Bytes_dotted_quad:
  "getNetwork ''1:2:3:4:5:6:1.2.3.4'' = Inr NET_IPV6 \<and>
   getIPV6Bytes ''1:2:3:4:5:6:1.2.3.4'' = Inr [0, 1, 0, 2, 0, 3, 0, 4, 0, 5, 0, 6, 0, 1]"
  by code_simp

text \<open>
  Claim C8 at \<open>1:2:3:4:5:6:1.2.3.4\<close>: \<open>normalizeAddress\<close> accepts it and returns the
  seven groups \<open>1:2:3:4:5:6:1\<close> as an IPv6 address; these are no IPv6 address, so
  normalizing the result again returns them as IPv4. The second result differs from the
  first.
\<close>

theorem normalizeAddress_dotted_quad:
  "normalizeAddress ''1:2:3:4:5:6:1.2.3.4'' =
     Inr \<lparr>protocol = PROTOCOL_IPV6, address = ''1:2:3:4:5:6:1''\<rparr> \<and>
   normalizeAddress ''1:2:3:4:5:6:1'' =
     Inr \<lparr>protocol = PROTOCOL_IPV4, address = ''1:2:3:4:5:6:1''\<rparr>"
  by code_simp

section \<open>The peer session (src/peer/base.js)\<close>

subsection \<open>The transport socket\<close>

text \<open>
  The socket belongs to the transport library. The session calls it and reads its
  state; the calls are kept in a log. The status codes and reasons named here are
  constants of disconnect\_status\_codes.js and stay symbolic.
\<close>

datatype status_code = Code nat | FORBIDDEN_CONNECTION | FAILED_TO_RESPOND | EVICTED_PEER_CODE

datatype status_reason =
  NoReason | Reason string | FORBIDDEN_CONNECTION_REASON | FAILED_TO_RESPOND_REASON

datatype socket_call =
    SocketDisconnect status_code status_reason
  | SocketTransmit string jsval
  | SocketInvoke string jsval
  | SocketCloseListener string
  | SocketKillListener string
  | SocketKillProcedure string
  | SocketKillReceiver string

record socket =
  socket_open :: bool
  socket_calls :: "socket_call list"

text \<open>Transport behaviour: \<open>socket.disconnect(code, reason)\<close> closes the socket at once.\<close>

definition socket_disconnect :: "status_code \<Rightarrow> status_reason \<Rightarrow> socket \<Rightarrow> socket" where
  "socket_disconnect c r s =
     s\<lparr>socket_open := False, socket_calls := socket_calls s @ [SocketDisconnect c r]\<rparr>"

definition socket_call :: "socket_call \<Rightarrow> socket \<Rightarrow> socket" where
  "socket_call c s = s\<lparr>socket_calls := socket_calls s @ [c]\<rparr>"

text \<open>A socket made by \<open>_createOutboundSocket\<close> (autoConnect is off).\<close>

definition createOutboundSocket :: socket where
  "createOutboundSocket = \<lparr>socket_open = False, socket_calls = []\<rparr>"

subsection \<open>Session state\<close>

datatype peer_kind = BasePeer | Inbound | Outbound

datatype ConnectionState = CONNECTING | OPEN | CLOSED

datatype peer_event =
    EVENT_BAN_PEER string
  | EVENT_OTHER string

record productivity =
  requestCounter :: nat
  responseCounter :: nat
  responseRate :: number
  lastResponded :: int

definition DEFAULT_PRODUCTIVITY :: productivity where
  "DEFAULT_PRODUCTIVITY =
     \<lparr>requestCounter = 0, responseCounter = 0, responseRate = Num 0, lastResponded = 0\<rparr>"

definition DEFAULT_REPUTATION_SCORE :: int where
  "DEFAULT_REPUTATION_SCORE = 100"

definition DEFAULT_PRODUCTIVITY_RESET_INTERVAL :: int where
  "DEFAULT_PRODUCTIVITY_RESET_INTERVAL = 20000"

definition RATE_NORMALIZATION_FACTOR :: nat where
  "RATE_NORMALIZATION_FACTOR = 1000"

record peerConfig =
  rateCalculationInterval :: nat
  wsMaxMessageRate :: rat
  wsMaxMessageRatePenalty :: int

text \<open>
  The handlers the pool binds to a session's events; each is one arrow function made in
  the pool's constructor, so a session's listeners are pairs of an event name and one of
  these.
\<close>

datatype pool_handler =
    HandlePeerRPC
  | HandlePeerMessage
  | HandleOutboundPeerConnect
  | HandleOutboundPeerConnectAbort
  | HandlePeerCloseOutbound
  | HandlePeerCloseInbound
  | HandlePeerOutboundSocketError
  | HandlePeerInboundSocketError
  | HandlePeerInfoUpdate
  | HandleFailedPeerInfoUpdate
  | HandleFailedToFetchPeerInfo
  | HandleFailedToFetchPeers
  | HandleFailedToCollectPeerDetails
  | HandleBanPeer
  | HandleUnbanPeer
  | HandleDiscoverPeer

record peer =
  peer_info :: peerInfo
  peer_id :: string
  peer_ipAddress :: string
  peer_wsPort :: nat
  peer_config :: peerConfig
  peer_nodeInfo :: "jsval option"
  listeners :: "(string \<times> pool_handler) list"
  kind :: peer_kind
  active :: bool
  reputation :: int
  latency :: int
  connectTime :: int
  rpcCounter :: "string \<rightharpoonup> nat"
  rpcRates :: "string \<rightharpoonup> number"
  messageCounter :: "string \<rightharpoonup> nat"
  messageRates :: "string \<rightharpoonup> number"
  wsMessageCount :: nat
  wsMessageRate :: number
  rateInterval :: nat
  counterResetInterval :: bool
  productivityResetInterval :: bool
  peer_productivity :: productivity
  socket :: "socket option"
  emitted :: "peer_event list"

text \<open>
  The constructor of \<open>Peer\<close>: the id comes from the address and the port and the two
  timers are armed. \<open>getPeerIdFromPeerInfo\<close> can throw, and then so does the constructor.
\<close>

definition Peer_init :: "string \<Rightarrow> peerInfo \<Rightarrow> peerConfig \<Rightarrow> int \<Rightarrow> peer" where
  "Peer_init pid info cfg now =
     \<lparr>peer_info = info, peer_id = pid, peer_ipAddress = ipAddress info,
      peer_wsPort = wsPort info, peer_config = cfg, peer_nodeInfo = None, listeners = [],
      kind = BasePeer, active = True, reputation = DEFAULT_REPUTATION_SCORE, latency = 0,
      connectTime = now, rpcCounter = Map.empty, rpcRates = Map.empty,
      messageCounter = Map.empty, messageRates = Map.empty,
      wsMessageCount = 0, wsMessageRate = Num 0,
      rateInterval = rateCalculationInterval cfg,
      counterResetInterval = True, productivityResetInterval = True,
      peer_productivity = DEFAULT_PRODUCTIVITY, socket = None, emitted = []\<rparr>"

definition new_Peer :: "peerInfo \<Rightarrow> peerConfig \<Rightarrow> int \<Rightarrow> error + peer" where
  "new_Peer info cfg now =
     (case getPeerIdFromPeerInfo (ipAddress info) (wsPort info) of
        Inl e \<Rightarrow> Inl e
      | Inr pid \<Rightarrow> Inr (Peer_init pid info cfg now))"

text \<open>\<open>InboundPeer\<close> is handed an accepted socket; \<open>OutboundPeer\<close> starts without one.\<close>

definition new_InboundPeer :: "peerInfo \<Rightarrow> socket \<Rightarrow> peerConfig \<Rightarrow> int \<Rightarrow> error + peer" where
  "new_InboundPeer info sock cfg now =
     (case new_Peer info cfg now of
        Inl e \<Rightarrow> Inl e
      | Inr p \<Rightarrow> Inr (p\<lparr>kind := Inbound, socket := Some sock\<rparr>))"

definition new_OutboundPeer :: "peerInfo \<Rightarrow> peerConfig \<Rightarrow> int \<Rightarrow> error + peer" where
  "new_OutboundPeer info cfg now =
     (case new_Peer info cfg now of
        Inl e \<Rightarrow> Inl e
      | Inr p \<Rightarrow> Inr (p\<lparr>kind := Outbound\<rparr>))"

text \<open>The getter \<open>state\<close>: open only with a socket whose state is OPEN.\<close>

definition state :: "peer \<Rightarrow> ConnectionState" where
  "state p =
     (case socket p of
        Some s \<Rightarrow> if socket_open s then OPEN else CLOSED
      | None \<Rightarrow> CLOSED)"

definition emit :: "peer_event \<Rightarrow> peer \<Rightarrow> peer" where
  "emit e p = p\<lparr>emitted := emitted p @ [e]\<rparr>"

subsection \<open>disconnect, with the overrides of the two subclasses\<close>

definition Peer_disconnect :: "status_code \<Rightarrow> status_reason \<Rightarrow> peer \<Rightarrow> peer" where
  "Peer_disconnect code reason p =
     (if active p then
        (let p1 = p\<lparr>active := False, counterResetInterval := False,
                     productivityResetInterval := False\<rparr>
         in case socket p1 of
              Some s \<Rightarrow> p1\<lparr>socket := Some (socket_disconnect code reason s)\<rparr>
            | None \<Rightarrow> p1)
      else p)"

definition unbindHandlersFromInboundSocket :: "socket \<Rightarrow> socket" where
  "unbindHandlersFromInboundSocket s =
     s\<lparr>socket_calls := socket_calls s @
        [SocketCloseListener ''error'', SocketCloseListener ''close'',
         SocketKillListener ''message'', SocketKillProcedure ''rpc-request'',
         SocketKillReceiver ''remote-message'']\<rparr>"

definition unbindHandlersFromOutboundSocket :: "socket \<Rightarrow> socket" where
  "unbindHandlersFromOutboundSocket s =
     s\<lparr>socket_calls := socket_calls s @
        [SocketCloseListener ''error'', SocketCloseListener ''connect'',
         SocketCloseListener ''connectAbort'', SocketCloseListener ''close'',
         SocketKillListener ''message'', SocketKillProcedure ''ping'',
         SocketKillProcedure ''rpc-request'', SocketKillReceiver ''remote-message'']\<rparr>"

text \<open>
  \<open>this.disconnect\<close> dispatches on the class of the session. An inbound session always
  has its socket (the constructor stores it).
\<close>

definition disconnect :: "status_code \<Rightarrow> status_reason \<Rightarrow> peer \<Rightarrow> peer" where
  "disconnect code reason p =
     (let p1 = Peer_disconnect code reason p
      in case kind p1 of
           BasePeer \<Rightarrow> p1
         | Inbound \<Rightarrow> p1\<lparr>socket := map_option unbindHandlersFromInboundSocket (socket p1)\<rparr>
         | Outbound \<Rightarrow> p1\<lparr>socket := map_option unbindHandlersFromOutboundSocket (socket p1)\<rparr>)"

subsection \<open>Reputation and ban\<close>

definition banPeer :: "peer \<Rightarrow> peer" where
  "banPeer p =
     disconnect FORBIDDEN_CONNECTION FORBIDDEN_CONNECTION_REASON (emit (EVENT_BAN_PEER (peer_id p)) p)"

definition applyPenalty :: "int \<Rightarrow> peer \<Rightarrow> peer" where
  "applyPenalty penalty p =
     (let p1 = p\<lparr>reputation := reputation p - penalty\<rparr>
      in if reputation p1 \<le> 0 then banPeer p1 else p1)"

text \<open>The number of \<open>banPeer\<close> events a session has emitted so far.\<close>

definition banCount :: "peer \<Rightarrow> nat" where
  "banCount p = length (filter (\<lambda>e. e = EVENT_BAN_PEER (peer_id p)) (emitted p))"

subsection \<open>Outgoing requests\<close>

record packet =
  procedure :: string
  data :: jsval

text \<open>
  How the transport settles \<open>socket.invoke\<close>: with the response data, or with an error
  that has a name and a message.
\<close>

datatype invoke_outcome = Resolved jsval | Rejected string string

text \<open>The text \<open>`${this.ipAddress}:${this.wsPort}`\<close> the errors carry.\<close>

definition peerAddress :: "peer \<Rightarrow> string" where
  "peerAddress p = peer_ipAddress p @ '':'' @ string_of_nat (peer_wsPort p)"

text \<open>
  \<open>Peer.request\<close> up to its \<open>await\<close>: count the request, fail without a socket, and hand
  the request to the transport.
\<close>

definition request_send :: "packet \<Rightarrow> peer \<Rightarrow> (error + unit) \<times> peer" where
  "request_send pkt p =
     (let pr = peer_productivity p;
          p1 = p\<lparr>peer_productivity := pr\<lparr>requestCounter := requestCounter pr + 1\<rparr>\<rparr>
      in case socket p1 of
           None \<Rightarrow> (Inl (Error ''Peer socket does not exist''), p1)
         | Some s \<Rightarrow>
             (Inr (),
              p1\<lparr>socket := Some (socket_call
                 (SocketInvoke ''rpc-request''
                    (JObj [(''type'', JStr ''/RPCRequest''),
                           (''procedure'', JStr (procedure pkt)),
                           (''data'', data pkt)])) s)\<rparr>))"

text \<open>
  \<open>Peer.request\<close> from the point where the transport has settled the call, at time
  \<open>now\<close>.
\<close>

definition request_settle ::
  "int \<Rightarrow> invoke_outcome \<Rightarrow> packet \<Rightarrow> peer \<Rightarrow> (error + jsval) \<times> peer" where
  "request_settle now outcome pkt p =
     (case outcome of
        Rejected name message \<Rightarrow>
          if name = ''TimeoutError'' then
            (let p1 = disconnect FAILED_TO_RESPOND FAILED_TO_RESPOND_REASON p
             in (Inl (RPCTimeoutError message (peerAddress p1)), p1))
          else (Inl (RPCResponseError message (peerAddress p)), p)
      | Resolved responseData \<Rightarrow>
          if truthy responseData then
            (let pr = peer_productivity p;
                 pr1 = pr\<lparr>lastResponded := now, responseCounter := responseCounter pr + 1\<rparr>;
                 pr2 = pr1\<lparr>responseRate := js_div (responseCounter pr1) (requestCounter pr1)\<rparr>
             in (Inr responseData, p\<lparr>peer_productivity := pr2\<rparr>))
          else
            (Inl (RPCResponseError
                    (''Failed to handle response for procedure '' @ procedure pkt)
                    (peerAddress p)), p))"

text \<open>The whole of \<open>Peer.request\<close>, when nothing else runs while it waits.\<close>

definition request ::
  "int \<Rightarrow> invoke_outcome \<Rightarrow> packet \<Rightarrow> peer \<Rightarrow> (error + jsval) \<times> peer" where
  "request now outcome pkt p =
     (case request_send pkt p of
        (Inl e, p1) \<Rightarrow> (Inl e, p1)
      | (Inr u, p1) \<Rightarrow> request_settle now outcome pkt p1)"

text \<open>\<open>OutboundPeer.request\<close> makes the socket first when there is none.\<close>

definition OutboundPeer_request ::
  "int \<Rightarrow> invoke_outcome \<Rightarrow> packet \<Rightarrow> peer \<Rightarrow> (error + jsval) \<times> peer" where
  "OutboundPeer_request now outcome pkt p =
     request now outcome pkt
       (case socket p of None \<Rightarrow> p\<lparr>socket := Some createOutboundSocket\<rparr> | Some s \<Rightarrow> p)"

subsection \<open>Rate accounting\<close>

text \<open>The socket's \<open>message\<close> listener and the two counters of the incoming pipelines.\<close>

definition handleWSMessage :: "peer \<Rightarrow> peer" where
  "handleWSMessage p = p\<lparr>wsMessageCount := wsMessageCount p + 1\<rparr>"

definition updateRPCCounter :: "string \<Rightarrow> peer \<Rightarrow> peer" where
  "updateRPCCounter key p =
     p\<lparr>rpcCounter := (rpcCounter p)(key \<mapsto> (case rpcCounter p key of None \<Rightarrow> 0 | Some c \<Rightarrow> c) + 1)\<rparr>"

definition updateMessageCounter :: "string \<Rightarrow> peer \<Rightarrow> peer" where
  "updateMessageCounter key p =
     p\<lparr>messageCounter :=
         (messageCounter p)(key \<mapsto> (case messageCounter p key of None \<Rightarrow> 0 | Some c \<Rightarrow> c) + 1)\<rparr>"

text \<open>The callback of \<open>_counterResetInterval\<close>, run every \<open>rateInterval\<close> milliseconds.\<close>

definition counterResetTick :: "peer \<Rightarrow> peer" where
  "counterResetTick p =
     (let p1 = p\<lparr>wsMessageRate :=
                    js_div (wsMessageCount p * RATE_NORMALIZATION_FACTOR) (rateInterval p)\<rparr>;
          p2 = p1\<lparr>wsMessageCount := 0\<rparr>
      in if js_gt (wsMessageRate p2) (wsMaxMessageRate (peer_config p2)) then
           applyPenalty (wsMaxMessageRatePenalty (peer_config p2)) p2
         else
           (let p3 = p2\<lparr>rpcRates := (\<lambda>key. map_option (\<lambda>v. js_div v (rateInterval p2)) (rpcCounter p2 key))\<rparr>;
                p4 = p3\<lparr>rpcCounter := Map.empty\<rparr>;
                p5 = p4\<lparr>messageRates :=
                          (\<lambda>key. map_option (\<lambda>v. js_div v (rateInterval p4)) (messageCounter p4 key))\<rparr>
            in p5\<lparr>messageCounter := Map.empty\<rparr>))"

text \<open>The callback of \<open>_productivityResetInterval\<close>, at time \<open>now\<close>.\<close>

definition productivityResetTick :: "int \<Rightarrow> peer \<Rightarrow> peer" where
  "productivityResetTick now p =
     (if lastResponded (peer_productivity p) < now - DEFAULT_PRODUCTIVITY_RESET_INTERVAL
      then p\<lparr>peer_productivity := DEFAULT_PRODUCTIVITY\<rparr> else p)"

subsection \<open>Runs and concrete sessions\<close>

text \<open>A run of \<open>applyPenalty\<close> calls on one session, in order.\<close>

fun applyPenalties :: "int list \<Rightarrow> peer \<Rightarrow> peer" where
  "applyPenalties [] p = p"
| "applyPenalties (n # ns) p = applyPenalties ns (applyPenalty n p)"

text \<open>
  How many calls of a run leave the reputation at or below zero, starting from
  reputation \<open>r\<close>.
\<close>

fun banningCalls :: "int \<Rightarrow> int list \<Rightarrow> nat" where
  "banningCalls r [] = 0"
| "banningCalls r (n # ns) = (if r - n \<le> 0 then 1 else 0) + banningCalls (r - n) ns"

text \<open>A fresh inbound session on an open socket, used for the concrete runs.\<close>

definition peerInfo0 :: peerInfo where
  "peerInfo0 = \<lparr>ipAddress = ''127.0.0.1'', wsPort = 5000, isPassive = False\<rparr>"

definition peerConfig0 :: peerConfig where
  "peerConfig0 =
     \<lparr>rateCalculationInterval = 1000, wsMaxMessageRate = 100, wsMaxMessageRatePenalty = 10\<rparr>"

definition inboundPeer0 :: peer where
  "inboundPeer0 =
     (Peer_init ''127.0.0.1:5000'' peerInfo0 peerConfig0 0)
       \<lparr>kind := Inbound, socket := Some \<lparr>socket_open = True, socket_calls = []\<rparr>\<rparr>"

definition pkt0 :: packet where
  "pkt0 = \<lparr>procedure = ''list'', data = JUndefined\<rparr>"


text \<open>
  A session that saw 50 socket frames, three \<open>list\<close> requests and one \<open>bar\<close> message in
  the interval, and one that saw 500 frames.
\<close>

definition busyPeer :: "nat \<Rightarrow> peer" where
  "busyPeer frames =
     (updateMessageCounter ''bar''
       (updateRPCCounter ''list'' (updateRPCCounter ''list'' (updateRPCCounter ''list''
          inboundPeer0))))\<lparr>wsMessageCount := frames\<rparr>"

subsection \<open>Properties of reputation and ban\<close>

lemma disconnect_frame:
  "peer_id (disconnect c r p) = peer_id p"
  "reputation (disconnect c r p) = reputation p"
  "emitted (disconnect c r p) = emitted p"
  "kind (disconnect c r p) = kind p"
  by (auto simp: disconnect_def Peer_disconnect_def Let_def split: option.splits peer_kind.splits)

lemma disconnect_inactive: "\<not> active (disconnect c r p)"
  by (auto simp: disconnect_def Peer_disconnect_def Let_def split: option.splits peer_kind.splits)

lemma disconnect_closed: "active p \<or> state p = CLOSED \<Longrightarrow> state (disconnect c r p) = CLOSED"
  by (auto simp: disconnect_def Peer_disconnect_def Let_def state_def socket_disconnect_def
        unbindHandlersFromInboundSocket_def unbindHandlersFromOutboundSocket_def
      split: option.splits peer_kind.splits if_splits)

lemma applyPenalty_step:
  "peer_id (applyPenalty n p) = peer_id p"
  "reputation (applyPenalty n p) = reputation p - n"
  "emitted (applyPenalty n p) =
     (if reputation p - n \<le> 0 then emitted p @ [EVENT_BAN_PEER (peer_id p)] else emitted p)"
  by (simp_all add: applyPenalty_def banPeer_def Let_def disconnect_frame emit_def)

lemma applyPenalty_banCount:
  "banCount (applyPenalty n p) = banCount p + (if reputation p - n \<le> 0 then 1 else 0)"
  by (simp add: banCount_def applyPenalty_step)

lemma disconnect_state:
  "state (disconnect c r p) = (if active p then CLOSED else state p)"
  by (auto simp: disconnect_def Peer_disconnect_def Let_def state_def socket_disconnect_def
        unbindHandlersFromInboundSocket_def unbindHandlersFromOutboundSocket_def
      split: option.splits peer_kind.splits)

lemma applyPenalty_state:
  "state (applyPenalty n p) = (if reputation p - n \<le> 0 \<and> active p then CLOSED else state p)"
  "active (applyPenalty n p) = (active p \<and> \<not> reputation p - n \<le> 0)"
  by (simp_all add: applyPenalty_def banPeer_def Let_def disconnect_state disconnect_inactive
        emit_def) (simp_all add: state_def)

lemma applyPenalties_reputation:
  "reputation (applyPenalties ns p) = reputation p - sum_list ns"
  by (induction ns arbitrary: p) (simp_all add: applyPenalty_step)

lemma applyPenalties_id: "peer_id (applyPenalties ns p) = peer_id p"
  by (induction ns arbitrary: p) (simp_all add: applyPenalty_step)

lemma applyPenalties_banCount:
  "banCount (applyPenalties ns p) = banCount p + banningCalls (reputation p) ns"
  by (induction ns arbitrary: p) (simp_all add: applyPenalty_banCount applyPenalty_step)

lemma applyPenalties_stays_closed:
  "\<not> active p \<Longrightarrow> state p = CLOSED \<Longrightarrow>
   \<not> active (applyPenalties ns p) \<and> state (applyPenalties ns p) = CLOSED"
  by (induction ns arbitrary: p) (simp_all add: applyPenalty_state)

lemma applyPenalties_closed:
  "active p \<Longrightarrow> 0 < banningCalls (reputation p) ns \<Longrightarrow>
   \<not> active (applyPenalties ns p) \<and> state (applyPenalties ns p) = CLOSED"
proof (induction ns arbitrary: p)
  case Nil
  then show ?case by simp
next
  case (Cons n ns)
  show ?case
  proof (cases "reputation p - n \<le> 0")
    case True
    with Cons.prems have "\<not> active (applyPenalty n p)" "state (applyPenalty n p) = CLOSED"
      by (simp_all add: applyPenalty_state)
    then show ?thesis
      using applyPenalties_stays_closed by simp
  next
    case False
    with Cons.prems have "active (applyPenalty n p)"
      and "0 < banningCalls (reputation (applyPenalty n p)) ns"
      by (simp_all add: applyPenalty_state applyPenalty_step)
    then show ?thesis
      using Cons.IH by simp
  qed
qed

text \<open>
  Claim C1, as the code has it. Every \<open>applyPenalty\<close> call that leaves the reputation
  at or below zero emits one \<open>banPeer\<close> event, and a call that leaves it above zero
  emits none: a run of calls emits as many \<open>banPeer\<close> events as it has calls ending at or
  below zero, so penalties applied after the reputation is exhausted each emit a further
  \<open>banPeer\<close>. Once such a call was made on an active session, the session is inactive
  and its state is closed.
\<close>

theorem applyPenalty_bans_per_call:
  "banCount (applyPenalties ns p) = banCount p + banningCalls (reputation p) ns \<and>
   reputation (applyPenalties ns p) = reputation p - sum_list ns \<and>
   (active p \<and> 0 < banningCalls (reputation p) ns \<longrightarrow>
      \<not> active (applyPenalties ns p) \<and> state (applyPenalties ns p) = CLOSED)"
  using applyPenalties_banCount applyPenalties_reputation applyPenalties_closed by blast

lemma inboundPeer0_simps:
  "active inboundPeer0" "reputation inboundPeer0 = 100" "banCount inboundPeer0 = 0"
  "state inboundPeer0 = OPEN"
  by (simp_all add: inboundPeer0_def Peer_init_def peerInfo0_def peerConfig0_def banCount_def
        DEFAULT_REPUTATION_SCORE_def state_def)

theorem applyPenalty_bans_per_call_witness:
  "active inboundPeer0 \<and> 0 < banningCalls (reputation inboundPeer0) [10, 90, 5] \<and>
   banCount (applyPenalties [10, 90, 5] inboundPeer0) = 2 \<and>
   reputation (applyPenalties [10, 90, 5] inboundPeer0) = -5 \<and>
   \<not> active (applyPenalties [10, 90, 5] inboundPeer0) \<and>
   state (applyPenalties [10, 90, 5] inboundPeer0) = CLOSED"
  using applyPenalty_bans_per_call [of "[10, 90, 5]" inboundPeer0]
  by (simp add: inboundPeer0_simps)

text \<open>
  Against C1 as stated (exactly one \<open>banPeer\<close> over the lifetime): a penalty of 100 and
  then a penalty of 10 on a fresh session emit two.
\<close>

theorem banPeer_twice_counterexample:
  "banCount (applyPenalty 10 (applyPenalty 100 inboundPeer0)) = 2"
  by (simp add: applyPenalty_banCount applyPenalty_step inboundPeer0_simps)


subsection \<open>Properties of outgoing requests\<close>











lemma request_send_socket:
  "socket p = Some s \<Longrightarrow>
   request_send pkt p =
     (Inr (), p\<lparr>peer_productivity :=
                   (peer_productivity p)\<lparr>requestCounter := requestCounter (peer_productivity p) + 1\<rparr>,
                 socket := Some (socket_call
                   (SocketInvoke ''rpc-request''
                      (JObj [(''type'', JStr ''/RPCRequest''),
                             (''procedure'', JStr (procedure pkt)),
                             (''data'', data pkt)])) s)\<rparr>)"
  by (simp add: request_send_def Let_def)

lemma request_send_frame:
  "socket p = Some s \<Longrightarrow> active (snd (request_send pkt p)) = active p"
  "socket p = Some s \<Longrightarrow> state (snd (request_send pkt p)) = state p"
  "socket p = Some s \<Longrightarrow> peerAddress (snd (request_send pkt p)) = peerAddress p"
  "socket p = Some s \<Longrightarrow> emitted (snd (request_send pkt p)) = emitted p"
  by (simp_all add: request_send_socket state_def socket_call_def peerAddress_def)

lemma disconnect_peerAddress: "peerAddress (disconnect c r p) = peerAddress p"
  by (auto simp: disconnect_def Peer_disconnect_def Let_def peerAddress_def
      split: option.splits peer_kind.splits)

lemma disconnect_active_socket:
  "active p \<Longrightarrow> socket p = Some s \<Longrightarrow>
   \<exists>s'. socket (disconnect c r p) = Some s' \<and> \<not> socket_open s' \<and>
        SocketDisconnect c r \<in> set (socket_calls s')"
  by (auto simp: disconnect_def Peer_disconnect_def Let_def socket_disconnect_def
        unbindHandlersFromInboundSocket_def unbindHandlersFromOutboundSocket_def
      split: option.splits peer_kind.splits)

lemma request_failure_cases:
  assumes "socket p = Some s"
  shows "request now (Rejected ''TimeoutError'' m) pkt p =
           (Inl (RPCTimeoutError m (peerAddress p)),
            disconnect FAILED_TO_RESPOND FAILED_TO_RESPOND_REASON (snd (request_send pkt p)))"
    and "\<not> active (snd (request now (Rejected ''TimeoutError'' m) pkt p))"
    and "active p \<Longrightarrow>
         state (snd (request now (Rejected ''TimeoutError'' m) pkt p)) = CLOSED \<and>
         (\<exists>s'. socket (snd (request now (Rejected ''TimeoutError'' m) pkt p)) = Some s' \<and>
               SocketDisconnect FAILED_TO_RESPOND FAILED_TO_RESPOND_REASON \<in> set (socket_calls s'))"
    and "name \<noteq> ''TimeoutError'' \<Longrightarrow>
         request now (Rejected name m) pkt p =
           (Inl (RPCResponseError m (peerAddress p)), snd (request_send pkt p))"
    and "\<not> truthy v \<Longrightarrow>
         request now (Resolved v) pkt p =
           (Inl (RPCResponseError (''Failed to handle response for procedure '' @ procedure pkt)
                   (peerAddress p)), snd (request_send pkt p))"
    and "active (snd (request_send pkt p)) = active p \<and>
         state (snd (request_send pkt p)) = state p \<and>
         socket (snd (request_send pkt p)) =
           Some (s\<lparr>socket_calls := socket_calls s @
                  [SocketInvoke ''rpc-request''
                     (JObj [(''type'', JStr ''/RPCRequest''),
                            (''procedure'', JStr (procedure pkt)),
                            (''data'', data pkt)])]\<rparr>)"
proof -
  let ?sent = "snd (request_send pkt p)"
  obtain p1 where send: "request_send pkt p = (Inr (), p1)"
    using request_send_socket [OF assms] by simp
  then have sent: "?sent = p1" by simp
  have req: "request now outcome pkt p = request_settle now outcome pkt p1" for outcome
    by (simp add: request_def send)
  have addr: "peerAddress p1 = peerAddress p"
    using request_send_frame(3) [OF assms, of pkt] sent by simp
  show t: "request now (Rejected ''TimeoutError'' m) pkt p =
           (Inl (RPCTimeoutError m (peerAddress p)),
            disconnect FAILED_TO_RESPOND FAILED_TO_RESPOND_REASON ?sent)"
    by (simp add: req sent request_settle_def Let_def disconnect_peerAddress addr)
  show "\<not> active (snd (request now (Rejected ''TimeoutError'' m) pkt p))"
    by (simp add: t disconnect_inactive)
  show "state (snd (request now (Rejected ''TimeoutError'' m) pkt p)) = CLOSED \<and>
         (\<exists>s'. socket (snd (request now (Rejected ''TimeoutError'' m) pkt p)) = Some s' \<and>
               SocketDisconnect FAILED_TO_RESPOND FAILED_TO_RESPOND_REASON \<in> set (socket_calls s'))"
    if "active p"
  proof -
    have a: "active ?sent" using that assms by (simp add: request_send_frame)
    obtain s1 where s1: "socket ?sent = Some s1"
      using assms by (simp add: request_send_socket)
    from disconnect_active_socket [OF a s1] a show ?thesis
      by (auto simp: t disconnect_state)
  qed
  show "request now (Rejected name m) pkt p =
           (Inl (RPCResponseError m (peerAddress p)), ?sent)"
    if "name \<noteq> ''TimeoutError''"
    using that by (simp add: req sent request_settle_def addr)
  show "request now (Resolved v) pkt p =
           (Inl (RPCResponseError (''Failed to handle response for procedure '' @ procedure pkt)
                   (peerAddress p)), ?sent)"
    if "\<not> truthy v"
    using that by (simp add: req sent request_settle_def addr)
  show "active ?sent = active p \<and> state ?sent = state p \<and>
         socket ?sent =
           Some (s\<lparr>socket_calls := socket_calls s @
                  [SocketInvoke ''rpc-request''
                     (JObj [(''type'', JStr ''/RPCRequest''),
                            (''procedure'', JStr (procedure pkt)),
                            (''data'', data pkt)])]\<rparr>)"
    using assms by (simp add: request_send_frame) (simp add: request_send_socket socket_call_def)
qed


text \<open>
  Claim C3. On a session with a socket: a \<open>TimeoutError\<close> of the transport gives the
  caller an \<open>RPCTimeoutError\<close> and applies \<open>disconnect(FAILED_TO_RESPOND)\<close>, which
  leaves the session inactive and, when it was active, closes the socket with that code;
  any other transport error gives an \<open>RPCResponseError\<close>, and a falsy response gives
  the \<open>RPCResponseError\<close> "Failed to handle response for procedure ...", both leaving
  the session as the sent request left it: as active and as open as before, with no
  disconnect on the socket.
\<close>

theorem request_failures:
  "socket p = Some s \<Longrightarrow>
   request now (Rejected ''TimeoutError'' m) pkt p =
     (Inl (RPCTimeoutError m (peerAddress p)),
      disconnect FAILED_TO_RESPOND FAILED_TO_RESPOND_REASON (snd (request_send pkt p))) \<and>
   \<not> active (snd (request now (Rejected ''TimeoutError'' m) pkt p)) \<and>
   (active p \<longrightarrow>
      state (snd (request now (Rejected ''TimeoutError'' m) pkt p)) = CLOSED \<and>
      (\<exists>s'. socket (snd (request now (Rejected ''TimeoutError'' m) pkt p)) = Some s' \<and>
            SocketDisconnect FAILED_TO_RESPOND FAILED_TO_RESPOND_REASON \<in> set (socket_calls s'))) \<and>
   (name \<noteq> ''TimeoutError'' \<longrightarrow>
      request now (Rejected name m) pkt p =
        (Inl (RPCResponseError m (peerAddress p)), snd (request_send pkt p))) \<and>
   (\<not> truthy v \<longrightarrow>
      request now (Resolved v) pkt p =
        (Inl (RPCResponseError (''Failed to handle response for procedure '' @ procedure pkt)
                (peerAddress p)), snd (request_send pkt p))) \<and>
   active (snd (request_send pkt p)) = active p \<and>
   state (snd (request_send pkt p)) = state p \<and>
   socket (snd (request_send pkt p)) =
     Some (s\<lparr>socket_calls := socket_calls s @
            [SocketInvoke ''rpc-request''
               (JObj [(''type'', JStr ''/RPCRequest''),
                      (''procedure'', JStr (procedure pkt)),
                      (''data'', data pkt)])]\<rparr>)"
proof -
  assume s: "socket p = Some s"
  note c = request_failure_cases [OF s]
  show ?thesis
    using c(1) [of now m pkt] c(2) [of now m pkt] c(3) [of now m pkt] c(4) [of name now m pkt]
      c(5) [of v now pkt] c(6) [of pkt]
    by blast
qed

lemma string_of_nat_5000: "string_of_nat 5000 = ''5000''"
  by (simp add: string_of_nat.simps digit_char_def)

lemma inboundPeer0_socket:
  "socket inboundPeer0 = Some \<lparr>socket_open = True, socket_calls = []\<rparr>"
  "peerAddress inboundPeer0 = ''127.0.0.1:5000''"
  by (simp_all add: inboundPeer0_def Peer_init_def peerInfo0_def peerConfig0_def peerAddress_def
        string_of_nat_5000)

theorem request_failures_witness:
  "socket inboundPeer0 = Some \<lparr>socket_open = True, socket_calls = []\<rparr> \<and>
   active inboundPeer0 \<and> ''BadConnectionError'' \<noteq> ''TimeoutError'' \<and> \<not> truthy JNull \<and>
   fst (request 5 (Rejected ''TimeoutError'' ''timed out'') pkt0 inboundPeer0) =
     Inl (RPCTimeoutError ''timed out'' ''127.0.0.1:5000'') \<and>
   state (snd (request 5 (Rejected ''TimeoutError'' ''timed out'') pkt0 inboundPeer0)) = CLOSED \<and>
   fst (request 5 (Rejected ''BadConnectionError'' ''aborted'') pkt0 inboundPeer0) =
     Inl (RPCResponseError ''aborted'' ''127.0.0.1:5000'') \<and>
   state (snd (request 5 (Rejected ''BadConnectionError'' ''aborted'') pkt0 inboundPeer0)) = OPEN \<and>
   active (snd (request 5 (Rejected ''BadConnectionError'' ''aborted'') pkt0 inboundPeer0)) \<and>
   fst (request 5 (Resolved JNull) pkt0 inboundPeer0) =
     Inl (RPCResponseError ''Failed to handle response for procedure list'' ''127.0.0.1:5000'') \<and>
   state (snd (request 5 (Resolved JNull) pkt0 inboundPeer0)) = OPEN \<and>
   active (snd (request 5 (Resolved JNull) pkt0 inboundPeer0))"
proof -
  have s: "socket inboundPeer0 = Some \<lparr>socket_open = True, socket_calls = []\<rparr>"
    by (rule inboundPeer0_socket)
  have a: "active inboundPeer0" and st: "state inboundPeer0 = OPEN"
    by (simp_all add: inboundPeer0_simps)
  have n: "''BadConnectionError'' \<noteq> ''TimeoutError''" and f: "\<not> truthy JNull"
    by simp_all
  note t = request_failures [OF s, of 5 "''timed out''" pkt0 "''BadConnectionError''" JNull]
  note o = request_failures [OF s, of 5 "''aborted''" pkt0 "''BadConnectionError''" JNull]
  have 1: "fst (request 5 (Rejected ''TimeoutError'' ''timed out'') pkt0 inboundPeer0) =
     Inl (RPCTimeoutError ''timed out'' ''127.0.0.1:5000'')"
    using t by (simp add: inboundPeer0_socket)
  have 2: "state (snd (request 5 (Rejected ''TimeoutError'' ''timed out'') pkt0 inboundPeer0)) = CLOSED"
    using t a by blast
  have 3: "request 5 (Rejected ''BadConnectionError'' ''aborted'') pkt0 inboundPeer0 =
     (Inl (RPCResponseError ''aborted'' ''127.0.0.1:5000''), snd (request_send pkt0 inboundPeer0))"
    using o n by (simp add: inboundPeer0_socket)
  have 4: "request 5 (Resolved JNull) pkt0 inboundPeer0 =
     (Inl (RPCResponseError ''Failed to handle response for procedure list'' ''127.0.0.1:5000''),
      snd (request_send pkt0 inboundPeer0))"
    using o f by (simp add: inboundPeer0_socket pkt0_def)
  have 5: "active (snd (request_send pkt0 inboundPeer0))"
    "state (snd (request_send pkt0 inboundPeer0)) = OPEN"
    using o a st by simp_all
  show ?thesis
    using s a n f 1 2 3 4 5 by simp
qed

subsection \<open>Properties of rate accounting\<close>


lemma applyPenalty_rates_frame:
  "rpcCounter (applyPenalty n p) = rpcCounter p"
  "rpcRates (applyPenalty n p) = rpcRates p"
  "messageCounter (applyPenalty n p) = messageCounter p"
  "messageRates (applyPenalty n p) = messageRates p"
  "wsMessageCount (applyPenalty n p) = wsMessageCount p"
  "wsMessageRate (applyPenalty n p) = wsMessageRate p"
  by (auto simp: applyPenalty_def banPeer_def emit_def disconnect_def Peer_disconnect_def Let_def
      split: option.splits peer_kind.splits)

text \<open>
  Claim C6. A tick sets \<open>wsMessageRate\<close> to \<open>wsMessageCount * 1000 / rateInterval\<close> and
  zeroes \<open>wsMessageCount\<close>. If the rate exceeds \<open>wsMaxMessageRate\<close>, the tick is
  \<open>applyPenalty(wsMaxMessageRatePenalty)\<close> on that state and the four rate and counter
  maps are left alone. Otherwise every key of \<open>rpcCounter\<close> (of \<open>messageCounter\<close>) gets
  its rate \<open>count / rateInterval\<close>, keys without a count get none, both counters are
  emptied, and no penalty is applied.
\<close>

theorem counterResetTick_rates:
  "wsMessageRate (counterResetTick p) = js_div (wsMessageCount p * 1000) (rateInterval p) \<and>
   wsMessageCount (counterResetTick p) = 0 \<and>
   (if js_gt (js_div (wsMessageCount p * 1000) (rateInterval p)) (wsMaxMessageRate (peer_config p))
    then counterResetTick p =
           applyPenalty (wsMaxMessageRatePenalty (peer_config p))
             (p\<lparr>wsMessageRate := js_div (wsMessageCount p * 1000) (rateInterval p),
                wsMessageCount := 0\<rparr>) \<and>
         rpcRates (counterResetTick p) = rpcRates p \<and>
         rpcCounter (counterResetTick p) = rpcCounter p \<and>
         messageRates (counterResetTick p) = messageRates p \<and>
         messageCounter (counterResetTick p) = messageCounter p
    else (\<forall>key. rpcRates (counterResetTick p) key =
                  map_option (\<lambda>count. js_div count (rateInterval p)) (rpcCounter p key)) \<and>
         (\<forall>key. messageRates (counterResetTick p) key =
                  map_option (\<lambda>count. js_div count (rateInterval p)) (messageCounter p key)) \<and>
         rpcCounter (counterResetTick p) = Map.empty \<and>
         messageCounter (counterResetTick p) = Map.empty \<and>
         reputation (counterResetTick p) = reputation p \<and>
         emitted (counterResetTick p) = emitted p \<and>
         active (counterResetTick p) = active p)"
  by (simp add: counterResetTick_def Let_def RATE_NORMALIZATION_FACTOR_def applyPenalty_rates_frame)

theorem counterResetTick_rates_witness:
  "wsMessageRate (counterResetTick (busyPeer 50)) = Num 50 \<and>
   wsMessageCount (counterResetTick (busyPeer 50)) = 0 \<and>
   rpcRates (counterResetTick (busyPeer 50)) ''list'' = Some (Num (3 / 1000)) \<and>
   rpcRates (counterResetTick (busyPeer 50)) ''status'' = None \<and>
   messageRates (counterResetTick (busyPeer 50)) ''bar'' = Some (Num (1 / 1000)) \<and>
   rpcCounter (counterResetTick (busyPeer 50)) = Map.empty \<and>
   messageCounter (counterResetTick (busyPeer 50)) = Map.empty \<and>
   reputation (counterResetTick (busyPeer 50)) = 100 \<and>
   wsMessageRate (counterResetTick (busyPeer 500)) = Num 500 \<and>
   reputation (counterResetTick (busyPeer 500)) = 90 \<and>
   rpcCounter (counterResetTick (busyPeer 500)) ''list'' = Some 3 \<and>
   rpcRates (counterResetTick (busyPeer 500)) ''list'' = None"
proof -
  have f: "wsMessageCount (busyPeer n) = n" "rateInterval (busyPeer n) = 1000"
    "wsMaxMessageRate (peer_config (busyPeer n)) = 100"
    "wsMaxMessageRatePenalty (peer_config (busyPeer n)) = 10"
    "rpcCounter (busyPeer n) ''list'' = Some 3" "rpcCounter (busyPeer n) ''status'' = None"
    "messageCounter (busyPeer n) ''bar'' = Some 1" "reputation (busyPeer n) = 100"
    "rpcRates (busyPeer n) = Map.empty" for n
    by (simp_all add: busyPeer_def updateMessageCounter_def updateRPCCounter_def inboundPeer0_def
        Peer_init_def peerInfo0_def peerConfig0_def DEFAULT_REPUTATION_SCORE_def)
  have lo: "js_div 50000 1000 = Num 50" "\<not> js_gt (Num 50) 100"
    and hi: "js_div 500000 1000 = Num 500" "js_gt (Num 500) 100"
    and r: "js_div 3 1000 = Num (3 / 1000)" "js_div (Suc 0) 1000 = Num (1 / 1000)"
    by (simp_all add: js_div_def)
  from counterResetTick_rates [of "busyPeer 50"]
  have 1: "wsMessageRate (counterResetTick (busyPeer 50)) = Num 50 \<and>
   wsMessageCount (counterResetTick (busyPeer 50)) = 0 \<and>
   rpcRates (counterResetTick (busyPeer 50)) ''list'' = Some (Num (3 / 1000)) \<and>
   rpcRates (counterResetTick (busyPeer 50)) ''status'' = None \<and>
   messageRates (counterResetTick (busyPeer 50)) ''bar'' = Some (Num (1 / 1000)) \<and>
   rpcCounter (counterResetTick (busyPeer 50)) = Map.empty \<and>
   messageCounter (counterResetTick (busyPeer 50)) = Map.empty \<and>
   reputation (counterResetTick (busyPeer 50)) = 100"
    by (simp add: f lo r)
  from counterResetTick_rates [of "busyPeer 500"]
  have 2: "wsMessageRate (counterResetTick (busyPeer 500)) = Num 500 \<and>
   reputation (counterResetTick (busyPeer 500)) = 90 \<and>
   rpcCounter (counterResetTick (busyPeer 500)) ''list'' = Some 3 \<and>
   rpcRates (counterResetTick (busyPeer 500)) ''list'' = None"
    by (simp add: f hi applyPenalty_step applyPenalty_rates_frame)
  from 1 2 show ?thesis by simp
qed


section \<open>The peer pool (src/peer\_pool.js)\<close>

subsection \<open>The pool's handlers on a session\<close>

text \<open>\<open>peer.on(event, handler)\<close> appends; \<open>peer.removeListener\<close> removes the latest match.\<close>

definition on :: "string \<Rightarrow> pool_handler \<Rightarrow> peer \<Rightarrow> peer" where
  "on event handler p = p\<lparr>listeners := listeners p @ [(event, handler)]\<rparr>"

definition removeListener :: "string \<Rightarrow> pool_handler \<Rightarrow> peer \<Rightarrow> peer" where
  "removeListener event handler p =
     p\<lparr>listeners := rev (remove1 (event, handler) (rev (listeners p)))\<rparr>"

text \<open>The sixteen listeners \<open>_bindHandlersToPeer\<close> adds, in its order.\<close>

definition boundHandlers :: "(string \<times> pool_handler) list" where
  "boundHandlers =
     [(''requestReceived'', HandlePeerRPC),
      (''messageReceived'', HandlePeerMessage),
      (''connectOutbound'', HandleOutboundPeerConnect),
      (''connectAbortOutbound'', HandleOutboundPeerConnectAbort),
      (''closeOutbound'', HandlePeerCloseOutbound),
      (''closeInbound'', HandlePeerCloseInbound),
      (''outboundSocketError'', HandlePeerOutboundSocketError),
      (''inboundSocketError'', HandlePeerInboundSocketError),
      (''updatedPeerInfo'', HandlePeerInfoUpdate),
      (''failedPeerInfoUpdate'', HandleFailedPeerInfoUpdate),
      (''failedToFetchPeerInfo'', HandleFailedToFetchPeerInfo),
      (''failedToFetchPeers'', HandleFailedToFetchPeers),
      (''failedToCollectPeerDetailsOnConnect'', HandleFailedToCollectPeerDetails),
      (''banPeer'', HandleBanPeer),
      (''unbanPeer'', HandleUnbanPeer),
      (''discoveredPeer'', HandleDiscoverPeer)]"

definition bindHandlersToPeer :: "peer \<Rightarrow> peer" where
  "bindHandlersToPeer p = foldl (\<lambda>q (event, handler). on event handler q) p boundHandlers"

text \<open>The fourteen listeners \<open>_unbindHandlersFromPeer\<close> removes, in its order.\<close>

definition unboundHandlers :: "(string \<times> pool_handler) list" where
  "unboundHandlers =
     [(''requestReceived'', HandlePeerRPC),
      (''messageReceived'', HandlePeerMessage),
      (''connectOutbound'', HandleOutboundPeerConnect),
      (''connectAbortOutbound'', HandleOutboundPeerConnectAbort),
      (''closeOutbound'', HandlePeerCloseOutbound),
      (''closeInbound'', HandlePeerCloseInbound),
      (''updatedPeerInfo'', HandlePeerInfoUpdate),
      (''failedToFetchPeerInfo'', HandleFailedToFetchPeerInfo),
      (''failedToFetchPeers'', HandleFailedToFetchPeers),
      (''failedPeerInfoUpdate'', HandleFailedPeerInfoUpdate),
      (''failedToCollectPeerDetailsOnConnect'', HandleFailedToCollectPeerDetails),
      (''banPeer'', HandleBanPeer),
      (''unbanPeer'', HandleUnbanPeer),
      (''discoveredPeer'', HandleDiscoverPeer)]"

definition unbindHandlersFromPeer :: "peer \<Rightarrow> peer" where
  "unbindHandlersFromPeer p =
     foldl (\<lambda>q (event, handler). removeListener event handler q) p unboundHandlers"

subsection \<open>Pushing the node info to a session\<close>

text \<open>
  What \<open>peer.applyNodeInfo(nodeInfo)\<close> does before it first waits: it stores the node
  info, then a passive peer transmits \<open>nodeInfoChanged\<close> (or throws without a socket, which
  the pool reports later), and any other peer starts the request \<open>updateMyself\<close>; an
  outbound session makes its socket for that.
\<close>

definition applyNodeInfo_start :: "jsval \<Rightarrow> peer \<Rightarrow> peer" where
  "applyNodeInfo_start nodeInfo p =
     (let p1 = p\<lparr>peer_nodeInfo := Some nodeInfo\<rparr>
      in if isPassive (peer_info p1) then
           (case socket p1 of
              None \<Rightarrow> p1
            | Some s \<Rightarrow> p1\<lparr>socket := Some (socket_call (SocketTransmit ''nodeInfoChanged'' nodeInfo) s)\<rparr>)
         else
           (let p2 = (if kind p1 = Outbound \<and> socket p1 = None
                      then p1\<lparr>socket := Some createOutboundSocket\<rparr> else p1)
            in snd (request_send \<lparr>procedure = ''updateMyself'', data = nodeInfo\<rparr> p2)))"

subsection \<open>Pool state\<close>

datatype pool_event = EVENT_REMOVE_PEER string

text \<open>
  The sessions are objects: the pool's two maps hold references into a store of
  sessions, and a session that left the maps is still in the store.
\<close>

record pool =
  sessions :: "nat \<rightharpoonup> peer"
  nextRef :: nat
  inboundPeerMap :: "string \<rightharpoonup> nat"
  outboundPeerMap :: "string \<rightharpoonup> nat"
  pool_nodeInfo :: "jsval option"
  pool_peerConfig :: peerConfig
  maxInboundConnections :: nat
  maxOutboundConnections :: nat
  whitelisted :: "string list"
  fixedPeers :: "string list"
  pool_emitted :: "pool_event list"

text \<open>
  The constructor. Of the sanitized peer lists the pool reads the ids of the whitelisted
  and of the fixed peers.
\<close>

definition new_PeerPool :: "peerConfig \<Rightarrow> nat \<Rightarrow> nat \<Rightarrow> string list \<Rightarrow> string list \<Rightarrow> pool" where
  "new_PeerPool cfg maxIn maxOut white fixed =
     \<lparr>sessions = Map.empty, nextRef = 0, inboundPeerMap = Map.empty,
      outboundPeerMap = Map.empty, pool_nodeInfo = None, pool_peerConfig = cfg,
      maxInboundConnections = maxIn, maxOutboundConnections = maxOut,
      whitelisted = white, fixedPeers = fixed, pool_emitted = []\<rparr>"

definition pool_emit :: "pool_event \<Rightarrow> pool \<Rightarrow> pool" where
  "pool_emit e s = s\<lparr>pool_emitted := pool_emitted s @ [e]\<rparr>"

text \<open>Run a method on the session object behind a reference.\<close>

definition onSession :: "nat \<Rightarrow> (peer \<Rightarrow> peer) \<Rightarrow> pool \<Rightarrow> pool" where
  "onSession r f s = s\<lparr>sessions := (sessions s)(r := map_option f (sessions s r))\<rparr>"

subsection \<open>Removing and evicting\<close>

definition removeOutboundPeer ::
  "string \<Rightarrow> status_code \<Rightarrow> status_reason \<Rightarrow> pool \<Rightarrow> bool \<times> pool" where
  "removeOutboundPeer peerId code reason s =
     (let s1 = (case outboundPeerMap s peerId of
                  Some r \<Rightarrow> onSession r unbindHandlersFromPeer (onSession r (disconnect code reason) s)
                | None \<Rightarrow> s);
          wasRemoved = (outboundPeerMap s1 peerId \<noteq> None);
          s2 = s1\<lparr>outboundPeerMap := (outboundPeerMap s1)(peerId := None)\<rparr>
      in (wasRemoved, pool_emit (EVENT_REMOVE_PEER peerId) s2))"

definition removeInboundPeer ::
  "string \<Rightarrow> status_code \<Rightarrow> status_reason \<Rightarrow> pool \<Rightarrow> bool \<times> pool" where
  "removeInboundPeer peerId code reason s =
     (let s1 = (case inboundPeerMap s peerId of
                  Some r \<Rightarrow> onSession r unbindHandlersFromPeer (onSession r (disconnect code reason) s)
                | None \<Rightarrow> s);
          wasRemoved = (inboundPeerMap s1 peerId \<noteq> None);
          s2 = s1\<lparr>inboundPeerMap := (inboundPeerMap s1)(peerId := None)\<rparr>
      in (wasRemoved, pool_emit (EVENT_REMOVE_PEER peerId) s2))"

text \<open>
  \<open>_evictPeer(kind)\<close>. Which peer the protection filters and the shuffle leave first is
  an input here: \<open>chosen\<close> is its id, or \<open>None\<close> when there is no peer or no candidate.
  \<open>evictable\<close> says what the code can choose from at most: an outbound peer that is not
  fixed, an inbound peer that is not whitelisted.
\<close>

definition evictPeer :: "peer_kind \<Rightarrow> string option \<Rightarrow> pool \<Rightarrow> pool" where
  "evictPeer k chosen s =
     (case chosen of
        None \<Rightarrow> s
      | Some peerId \<Rightarrow>
          if k = Outbound then
            snd (removeOutboundPeer peerId EVICTED_PEER_CODE
                   (Reason (''Evicted outbound peer '' @ peerId)) s)
          else if k = Inbound then
            snd (removeInboundPeer peerId EVICTED_PEER_CODE
                   (Reason (''Evicted inbound peer '' @ peerId)) s)
          else s)"

definition evictable :: "peer_kind \<Rightarrow> pool \<Rightarrow> string option \<Rightarrow> bool" where
  "evictable k s chosen =
     (case chosen of
        None \<Rightarrow> True
      | Some peerId \<Rightarrow>
          (k = Outbound \<and> outboundPeerMap s peerId \<noteq> None \<and> peerId \<notin> set (fixedPeers s)) \<or>
          (k = Inbound \<and> inboundPeerMap s peerId \<noteq> None \<and> peerId \<notin> set (whitelisted s)))"

subsection \<open>Adding\<close>

text \<open>\<open>Object.keys(v).length\<close>.\<close>

fun keysLength :: "jsval \<Rightarrow> nat" where
  "keysLength (JObj kvs) = length kvs"
| "keysLength (JArr xs) = length xs"
| "keysLength (JStr str) = length str"
| "keysLength v = 0"

text \<open>Reading a property: \<open>undefined\<close> unless the value is an object that has it.\<close>

fun getProp :: "jsval \<Rightarrow> string \<Rightarrow> jsval" where
  "getProp (JObj kvs) key = (case map_of kvs key of Some v \<Rightarrow> v | None \<Rightarrow> JUndefined)"
| "getProp v key = JUndefined"

definition nodeInfoTruthy :: "jsval option \<Rightarrow> bool" where
  "nodeInfoTruthy ni = (case ni of None \<Rightarrow> False | Some v \<Rightarrow> truthy v)"

definition moduleCount :: "jsval option \<Rightarrow> nat" where
  "moduleCount ni =
     (case ni of
        None \<Rightarrow> 1
      | Some v \<Rightarrow>
          if truthy v \<and> truthy (getProp v ''modules'')
          then keysLength (getProp v ''modules'') + 1 else 1)"

text \<open>\<open>new\<close>: the session object gets the next free reference.\<close>

definition allocate :: "peer \<Rightarrow> pool \<Rightarrow> nat \<times> pool" where
  "allocate p s = (nextRef s, s\<lparr>sessions := (sessions s)(nextRef s \<mapsto> p), nextRef := nextRef s + 1\<rparr>)"

definition applyNodeInfoOnPeer :: "nat \<Rightarrow> pool \<Rightarrow> pool" where
  "applyNodeInfoOnPeer r s =
     (case pool_nodeInfo s of
        None \<Rightarrow> s
      | Some ni \<Rightarrow> if truthy ni then onSession r (applyNodeInfo_start ni) s else s)"

definition addInboundPeer ::
  "int \<Rightarrow> string option \<Rightarrow> peerInfo \<Rightarrow> socket \<Rightarrow> pool \<Rightarrow> (error + nat) \<times> pool" where
  "addInboundPeer now chosen info sock s =
     (let s1 = (if card (dom (inboundPeerMap s)) \<ge>
                   maxInboundConnections s * moduleCount (pool_nodeInfo s)
                then evictPeer Inbound chosen s else s)
      in case new_InboundPeer info sock (pool_peerConfig s1) now of
           Inl e \<Rightarrow> (Inl e, s1)
         | Inr p \<Rightarrow>
             (let (r, s2) = allocate p s1
              in if inboundPeerMap s2 (peer_id p) \<noteq> None then
                   (Inl (Error (''Peer '' @ peer_id p @ '' was already in the peer pool'')), s2)
                 else
                   (let s3 = s2\<lparr>inboundPeerMap := (inboundPeerMap s2)(peer_id p \<mapsto> r)\<rparr>;
                        s4 = onSession r bindHandlersToPeer s3
                    in (Inr r, applyNodeInfoOnPeer r s4))))"

definition addOutboundPeer :: "int \<Rightarrow> string \<Rightarrow> peerInfo \<Rightarrow> pool \<Rightarrow> (error + nat) \<times> pool" where
  "addOutboundPeer now peerId info s =
     (case outboundPeerMap s peerId of
        Some existingPeer \<Rightarrow> (Inr existingPeer, s)
      | None \<Rightarrow>
          (case new_OutboundPeer info (pool_peerConfig s) now of
             Inl e \<Rightarrow> (Inl e, s)
           | Inr p \<Rightarrow>
               (let (r, s2) = allocate p s;
                    s3 = s2\<lparr>outboundPeerMap := (outboundPeerMap s2)(peer_id p \<mapsto> r)\<rparr>;
                    s4 = onSession r bindHandlersToPeer s3
                in (Inr r, applyNodeInfoOnPeer r s4))))"

text \<open>\<open>applyNodeInfo\<close> of the pool: keep the node info and push it to every peer of the maps.\<close>

definition applyNodeInfo :: "jsval \<Rightarrow> pool \<Rightarrow> pool" where
  "applyNodeInfo nodeInfo s =
     s\<lparr>pool_nodeInfo := Some nodeInfo,
       sessions := (\<lambda>r. if r \<in> ran (outboundPeerMap s) \<union> ran (inboundPeerMap s)
                        then map_option (applyNodeInfo_start nodeInfo) (sessions s r)
                        else sessions s r)\<rparr>"

subsection \<open>Reachable pool states\<close>

inductive reachable :: "pool \<Rightarrow> bool" where
  init: "reachable (new_PeerPool cfg maxIn maxOut white fixed)"
| addInbound:
    "reachable s \<Longrightarrow> evictable Inbound s chosen \<Longrightarrow>
     reachable (snd (addInboundPeer now chosen info sock s))"
| addOutbound: "reachable s \<Longrightarrow> reachable (snd (addOutboundPeer now peerId info s))"
| removeInbound: "reachable s \<Longrightarrow> reachable (snd (removeInboundPeer peerId code reason s))"
| removeOutbound: "reachable s \<Longrightarrow> reachable (snd (removeOutboundPeer peerId code reason s))"
| evict: "reachable s \<Longrightarrow> evictable k s chosen \<Longrightarrow> reachable (evictPeer k chosen s)"
| nodeInfo: "reachable s \<Longrightarrow> reachable (applyNodeInfo ni s)"


subsection \<open>Ownership of sessions\<close>

text \<open>
  Every key of a map refers to a session of the store that has this key as its id and
  the kind of the map.
\<close>

definition ownsAll :: "pool \<Rightarrow> (string \<rightharpoonup> nat) \<Rightarrow> peer_kind \<Rightarrow> bool" where
  "ownsAll s m k =
     (\<forall>key r. m key = Some r \<longrightarrow>
        r < nextRef s \<and> (\<exists>p. sessions s r = Some p \<and> peer_id p = key \<and> kind p = k))"

definition owned :: "pool \<Rightarrow> bool" where
  "owned s = (ownsAll s (inboundPeerMap s) Inbound \<and> ownsAll s (outboundPeerMap s) Outbound)"

lemma on_frame: "peer_id (on e h p) = peer_id p" "kind (on e h p) = kind p"
  by (simp_all add: on_def)

lemma removeListener_frame:
  "peer_id (removeListener e h p) = peer_id p" "kind (removeListener e h p) = kind p"
  by (simp_all add: removeListener_def)

lemma foldl_on_frame:
  "peer_id (foldl (\<lambda>q (event, handler). on event handler q) p hs) = peer_id p \<and>
   kind (foldl (\<lambda>q (event, handler). on event handler q) p hs) = kind p"
  by (induction hs arbitrary: p) (auto simp: on_frame)

lemma foldl_removeListener_frame:
  "peer_id (foldl (\<lambda>q (event, handler). removeListener event handler q) p hs) = peer_id p \<and>
   kind (foldl (\<lambda>q (event, handler). removeListener event handler q) p hs) = kind p"
  by (induction hs arbitrary: p) (auto simp: removeListener_frame)

lemma bindHandlersToPeer_frame:
  "peer_id (bindHandlersToPeer p) = peer_id p" "kind (bindHandlersToPeer p) = kind p"
  by (simp_all add: bindHandlersToPeer_def foldl_on_frame)

lemma unbindHandlersFromPeer_frame:
  "peer_id (unbindHandlersFromPeer p) = peer_id p" "kind (unbindHandlersFromPeer p) = kind p"
  by (simp_all add: unbindHandlersFromPeer_def foldl_removeListener_frame)

lemma request_send_id_kind:
  "peer_id (snd (request_send pkt p)) = peer_id p" "kind (snd (request_send pkt p)) = kind p"
  by (simp_all add: request_send_def Let_def split: option.splits)

lemma applyNodeInfo_start_frame:
  "peer_id (applyNodeInfo_start ni p) = peer_id p" "kind (applyNodeInfo_start ni p) = kind p"
  by (simp_all add: applyNodeInfo_start_def Let_def request_send_id_kind split: option.splits)

text \<open>A method that keeps a session's id and kind keeps the ownership.\<close>

definition keepsIdentity :: "(peer \<Rightarrow> peer) \<Rightarrow> bool" where
  "keepsIdentity f = (\<forall>p. peer_id (f p) = peer_id p \<and> kind (f p) = kind p)"

lemma keepsIdentity_methods:
  "keepsIdentity (disconnect c r)" "keepsIdentity unbindHandlersFromPeer"
  "keepsIdentity bindHandlersToPeer" "keepsIdentity (applyNodeInfo_start ni)"
  by (simp_all add: keepsIdentity_def disconnect_frame unbindHandlersFromPeer_frame
        bindHandlersToPeer_frame applyNodeInfo_start_frame)

lemma ownsAll_onSession:
  "keepsIdentity f \<Longrightarrow> ownsAll s m k \<Longrightarrow> ownsAll (onSession r f s) m k"
  unfolding ownsAll_def onSession_def keepsIdentity_def by fastforce

lemma onSession_fields:
  "inboundPeerMap (onSession r f s) = inboundPeerMap s"
  "outboundPeerMap (onSession r f s) = outboundPeerMap s"
  "nextRef (onSession r f s) = nextRef s"
  "pool_nodeInfo (onSession r f s) = pool_nodeInfo s"
  "pool_emitted (onSession r f s) = pool_emitted s"
  by (simp_all add: onSession_def)

lemma owned_onSession: "keepsIdentity f \<Longrightarrow> owned s \<Longrightarrow> owned (onSession r f s)"
  by (simp add: owned_def onSession_fields ownsAll_onSession)

lemma ownsAll_delete: "ownsAll s m k \<Longrightarrow> ownsAll s (m(key := None)) k"
  unfolding ownsAll_def by auto

lemma ownsAll_cong:
  "sessions s' = sessions s \<Longrightarrow> nextRef s' = nextRef s \<Longrightarrow> ownsAll s' m k = ownsAll s m k"
  by (simp add: ownsAll_def)

lemma owned_removeOutboundPeer: "owned s \<Longrightarrow> owned (snd (removeOutboundPeer peerId c r s))"
proof -
  assume o: "owned s"
  define s1 where "s1 = (case outboundPeerMap s peerId of
      Some ref \<Rightarrow> onSession ref unbindHandlersFromPeer (onSession ref (disconnect c r) s)
    | None \<Rightarrow> s)"
  have o1: "owned s1"
    unfolding s1_def using o
    by (auto split: option.splits intro!: owned_onSession keepsIdentity_methods)
  have "snd (removeOutboundPeer peerId c r s) =
      pool_emit (EVENT_REMOVE_PEER peerId) (s1\<lparr>outboundPeerMap := (outboundPeerMap s1)(peerId := None)\<rparr>)"
    by (simp add: removeOutboundPeer_def Let_def s1_def)
  moreover have "owned (pool_emit (EVENT_REMOVE_PEER peerId)
      (s1\<lparr>outboundPeerMap := (outboundPeerMap s1)(peerId := None)\<rparr>))"
    using o1 unfolding owned_def pool_emit_def ownsAll_def by auto
  ultimately show ?thesis by simp
qed

lemma owned_removeInboundPeer: "owned s \<Longrightarrow> owned (snd (removeInboundPeer peerId c r s))"
proof -
  assume o: "owned s"
  define s1 where "s1 = (case inboundPeerMap s peerId of
      Some ref \<Rightarrow> onSession ref unbindHandlersFromPeer (onSession ref (disconnect c r) s)
    | None \<Rightarrow> s)"
  have o1: "owned s1"
    unfolding s1_def using o
    by (auto split: option.splits intro!: owned_onSession keepsIdentity_methods)
  have "snd (removeInboundPeer peerId c r s) =
      pool_emit (EVENT_REMOVE_PEER peerId) (s1\<lparr>inboundPeerMap := (inboundPeerMap s1)(peerId := None)\<rparr>)"
    by (simp add: removeInboundPeer_def Let_def s1_def)
  moreover have "owned (pool_emit (EVENT_REMOVE_PEER peerId)
      (s1\<lparr>inboundPeerMap := (inboundPeerMap s1)(peerId := None)\<rparr>))"
    using o1 unfolding owned_def pool_emit_def ownsAll_def by auto
  ultimately show ?thesis by simp
qed

lemma owned_evictPeer: "owned s \<Longrightarrow> owned (evictPeer k chosen s)"
  by (auto simp: evictPeer_def owned_removeInboundPeer owned_removeOutboundPeer split: option.splits)

lemma owned_applyNodeInfoOnPeer: "owned s \<Longrightarrow> owned (applyNodeInfoOnPeer r s)"
  by (auto simp: applyNodeInfoOnPeer_def split: option.splits
      intro!: owned_onSession keepsIdentity_methods)

lemma new_Peer_id_kind:
  "new_InboundPeer info sock cfg now = Inr p \<Longrightarrow> kind p = Inbound"
  "new_OutboundPeer info cfg now = Inr p \<Longrightarrow> kind p = Outbound"
  by (auto simp: new_InboundPeer_def new_OutboundPeer_def split: sum.splits)

lemma owned_allocate: "owned s \<Longrightarrow> owned (snd (allocate p s))"
  unfolding owned_def ownsAll_def allocate_def by (auto simp: less_Suc_eq)

lemma owned_add_inbound:
  "owned s \<Longrightarrow> kind p = Inbound \<Longrightarrow>
   owned ((snd (allocate p s))
     \<lparr>inboundPeerMap := (inboundPeerMap (snd (allocate p s)))(peer_id p \<mapsto> fst (allocate p s))\<rparr>)"
  unfolding owned_def ownsAll_def allocate_def by (auto simp: less_Suc_eq)

lemma owned_add_outbound:
  "owned s \<Longrightarrow> kind p = Outbound \<Longrightarrow>
   owned ((snd (allocate p s))
     \<lparr>outboundPeerMap := (outboundPeerMap (snd (allocate p s)))(peer_id p \<mapsto> fst (allocate p s))\<rparr>)"
  unfolding owned_def ownsAll_def allocate_def by (auto simp: less_Suc_eq)

lemma owned_addOutboundPeer: "owned s \<Longrightarrow> owned (snd (addOutboundPeer now peerId info s))"
proof -
  assume o: "owned s"
  show ?thesis
  proof (cases "outboundPeerMap s peerId")
    case (Some r)
    then show ?thesis using o by (simp add: addOutboundPeer_def)
  next
    case None
    show ?thesis
    proof (cases "new_OutboundPeer info (pool_peerConfig s) now")
      case (Inl e)
      then show ?thesis using o None by (simp add: addOutboundPeer_def)
    next
      case (Inr p)
      then have k: "kind p = Outbound" by (rule new_Peer_id_kind)
      obtain r s2 where al: "allocate p s = (r, s2)" by (cases "allocate p s")
      have "owned (applyNodeInfoOnPeer r (onSession r bindHandlersToPeer
                (s2\<lparr>outboundPeerMap := (outboundPeerMap s2)(peer_id p \<mapsto> r)\<rparr>)))"
        using owned_add_outbound [OF o k] al
        by (intro owned_applyNodeInfoOnPeer owned_onSession keepsIdentity_methods) simp
      then show ?thesis
        using None Inr al by (simp add: addOutboundPeer_def)
    qed
  qed
qed

lemma owned_addInboundPeer:
  "owned s \<Longrightarrow> owned (snd (addInboundPeer now chosen info sock s))"
proof -
  assume o: "owned s"
  define s1 where "s1 = (if card (dom (inboundPeerMap s)) \<ge>
                   maxInboundConnections s * moduleCount (pool_nodeInfo s)
                then evictPeer Inbound chosen s else s)"
  have o1: "owned s1" unfolding s1_def using o by (simp add: owned_evictPeer)
  show ?thesis
  proof (cases "new_InboundPeer info sock (pool_peerConfig s1) now")
    case (Inl e)
    then show ?thesis using o1 by (simp add: addInboundPeer_def Let_def s1_def)
  next
    case (Inr p)
    then have k: "kind p = Inbound" by (rule new_Peer_id_kind)
    obtain r s2 where al: "allocate p s1 = (r, s2)" by (cases "allocate p s1")
    have a: "owned s2" using owned_allocate [OF o1, of p] al by simp
    have b: "owned (applyNodeInfoOnPeer r (onSession r bindHandlersToPeer
                (s2\<lparr>inboundPeerMap := (inboundPeerMap s2)(peer_id p \<mapsto> r)\<rparr>)))"
      using owned_add_inbound [OF o1 k] al
      by (intro owned_applyNodeInfoOnPeer owned_onSession keepsIdentity_methods) simp
    show ?thesis
      using Inr a b al
      by (simp add: addInboundPeer_def Let_def s1_def [symmetric])
  qed
qed

lemma owned_applyNodeInfo: "owned s \<Longrightarrow> owned (applyNodeInfo ni s)"
  unfolding owned_def ownsAll_def applyNodeInfo_def
  by (fastforce simp: applyNodeInfo_start_frame)

lemma owned_new: "owned (new_PeerPool cfg maxIn maxOut white fixed)"
  by (simp add: owned_def ownsAll_def new_PeerPool_def)

lemma reachable_owned: "reachable s \<Longrightarrow> owned s"
  by (induction rule: reachable.induct)
    (simp_all add: owned_new owned_addInboundPeer owned_addOutboundPeer owned_removeInboundPeer
       owned_removeOutboundPeer owned_evictPeer owned_applyNodeInfo)

text \<open>
  Claim C7, as the code has it. In every state the pool reaches by adding, removing and
  evicting peers (and by taking a new node info), every key of the inbound map refers to
  an inbound session whose id is the key, every key of the outbound map refers to an
  outbound session whose id is the key, and no session is referred to by both maps. One
  peerId, though, may be a key of both maps at once: \<open>addInboundPeer\<close> looks only into the
  inbound map and \<open>addOutboundPeer\<close> only into the outbound map.
\<close>

theorem sessions_owned_by_kind:
  "reachable s \<Longrightarrow>
   (\<forall>key r. inboundPeerMap s key = Some r \<longrightarrow>
      (\<exists>p. sessions s r = Some p \<and> peer_id p = key \<and> kind p = Inbound)) \<and>
   (\<forall>key r. outboundPeerMap s key = Some r \<longrightarrow>
      (\<exists>p. sessions s r = Some p \<and> peer_id p = key \<and> kind p = Outbound)) \<and>
   ran (inboundPeerMap s) \<inter> ran (outboundPeerMap s) = {}"
proof -
  assume "reachable s"
  then have o: "owned s" by (rule reachable_owned)
  have "r \<notin> ran (outboundPeerMap s)" if "r \<in> ran (inboundPeerMap s)" for r
  proof
    assume "r \<in> ran (outboundPeerMap s)"
    then obtain k2 where "outboundPeerMap s k2 = Some r" by (auto simp: ran_def)
    with o obtain p2 where p2: "sessions s r = Some p2" "kind p2 = Outbound"
      unfolding owned_def ownsAll_def by blast
    from that obtain k1 where "inboundPeerMap s k1 = Some r" by (auto simp: ran_def)
    with o obtain p1 where "sessions s r = Some p1" "kind p1 = Inbound"
      unfolding owned_def ownsAll_def by blast
    with p2 show False by simp
  qed
  then have "ran (inboundPeerMap s) \<inter> ran (outboundPeerMap s) = {}" by blast
  with o show ?thesis unfolding owned_def ownsAll_def by blast
qed

text \<open>A pool that has dialled the peer at 127.0.0.1:5000 and then accepted a connection from it.\<close>

definition pool0 :: pool where
  "pool0 = new_PeerPool peerConfig0 20 20 [] []"

definition poolBothWays :: pool where
  "poolBothWays =
     snd (addInboundPeer 2 None peerInfo0 \<lparr>socket_open = True, socket_calls = []\<rparr>
       (snd (addOutboundPeer 1 ''127.0.0.1:5000'' peerInfo0 pool0)))"

lemma peerId0: "getPeerIdFromPeerInfo ''127.0.0.1'' 5000 = Inr ''127.0.0.1:5000''"
  by code_simp

lemma poolBothWays_maps:
  "inboundPeerMap poolBothWays = [''127.0.0.1:5000'' \<mapsto> 1]"
  "outboundPeerMap poolBothWays = [''127.0.0.1:5000'' \<mapsto> 0]"
  by (simp_all add: poolBothWays_def pool0_def new_PeerPool_def addOutboundPeer_def
        addInboundPeer_def new_OutboundPeer_def new_InboundPeer_def new_Peer_def peerInfo0_def
        peerId0 allocate_def Let_def onSession_def applyNodeInfoOnPeer_def moduleCount_def
        Peer_init_def)

text \<open>
  Against C7 as stated: after dialling a peer and then accepting a connection from the
  same peer, its id is a key of both maps.
\<close>

theorem peerId_in_both_maps_counterexample:
  "inboundPeerMap poolBothWays ''127.0.0.1:5000'' = Some 1 \<and>
   outboundPeerMap poolBothWays ''127.0.0.1:5000'' = Some 0"
  by (simp add: poolBothWays_maps)

lemma reachable_poolBothWays: "reachable poolBothWays"
  unfolding poolBothWays_def pool0_def
  by (intro reachable.addInbound reachable.addOutbound reachable.init) (simp add: evictable_def)

theorem sessions_owned_by_kind_witness:
  "reachable poolBothWays \<and>
   (\<exists>p. sessions poolBothWays 1 = Some p \<and> peer_id p = ''127.0.0.1:5000'' \<and> kind p = Inbound) \<and>
   (\<exists>p. sessions poolBothWays 0 = Some p \<and> peer_id p = ''127.0.0.1:5000'' \<and> kind p = Outbound) \<and>
   ran (inboundPeerMap poolBothWays) \<inter> ran (outboundPeerMap poolBothWays) = {}"
  using sessions_owned_by_kind [OF reachable_poolBothWays] reachable_poolBothWays
  by (simp add: poolBothWays_maps)


subsection \<open>Adding an outbound peer twice\<close>

lemma applyNodeInfoOnPeer_fields:
  "inboundPeerMap (applyNodeInfoOnPeer r s) = inboundPeerMap s"
  "outboundPeerMap (applyNodeInfoOnPeer r s) = outboundPeerMap s"
  "pool_emitted (applyNodeInfoOnPeer r s) = pool_emitted s"
  by (simp_all add: applyNodeInfoOnPeer_def onSession_fields split: option.splits)

lemma new_OutboundPeer_id:
  "new_OutboundPeer info cfg now = Inr p \<Longrightarrow>
   getPeerIdFromPeerInfo (ipAddress info) (wsPort info) = Inr (peer_id p)"
  by (auto simp: new_OutboundPeer_def new_Peer_def Peer_init_def split: sum.splits)

lemma addOutboundPeer_existing:
  "outboundPeerMap s peerId = Some r \<Longrightarrow> addOutboundPeer now peerId info s = (Inr r, s)"
  by (simp add: addOutboundPeer_def)

lemma addOutboundPeer_stores:
  assumes "addOutboundPeer now peerId info s = (Inr r, s1)"
    and "getPeerIdFromPeerInfo (ipAddress info) (wsPort info) = Inr peerId"
  shows "outboundPeerMap s1 peerId = Some r"
proof (cases "outboundPeerMap s peerId")
  case (Some r0)
  with assms show ?thesis by (simp add: addOutboundPeer_def)
next
  case None
  show ?thesis
  proof (cases "new_OutboundPeer info (pool_peerConfig s) now")
    case (Inl e)
    with None assms show ?thesis by (simp add: addOutboundPeer_def)
  next
    case (Inr p)
    with assms(2) have "peer_id p = peerId"
      using new_OutboundPeer_id [OF Inr] by simp
    with None Inr assms(1) show ?thesis
      by (auto simp: addOutboundPeer_def allocate_def Let_def applyNodeInfoOnPeer_fields
          onSession_fields)
  qed
qed

text \<open>
  Claim C9, as the code has it. When the peerId passed is the id the session derives
  from the peerInfo, a first \<open>addOutboundPeer\<close> that returns a session leaves it stored
  under that peerId, and a second call with the same peerId, at any time and with any
  peerInfo, returns the same session and leaves the whole pool as it was.
\<close>

theorem addOutboundPeer_twice:
  "getPeerIdFromPeerInfo (ipAddress info) (wsPort info) = Inr peerId \<Longrightarrow>
   addOutboundPeer now peerId info s = (Inr r, s1) \<Longrightarrow>
   outboundPeerMap s1 peerId = Some r \<and>
   addOutboundPeer now' peerId info' s1 = (Inr r, s1)"
  using addOutboundPeer_stores addOutboundPeer_existing by blast

text \<open>
  The peer at \<open>::1\<close>, port 5000, added to a fresh pool under the id written by hand in the
  compressed form, once and twice.
\<close>

definition peerInfo1 :: peerInfo where
  "peerInfo1 = \<lparr>ipAddress = ''::1'', wsPort = 5000, isPassive = False\<rparr>"

definition poolOnce :: pool where
  "poolOnce = snd (addOutboundPeer 1 ''[::1]:5000'' peerInfo1 pool0)"

definition poolTwice :: pool where
  "poolTwice = snd (addOutboundPeer 1 ''[::1]:5000'' peerInfo1 poolOnce)"

lemma peerId1: "getPeerIdFromPeerInfo ''::1'' 5000 = Inr ''[0:0:0:0:0:0:0:1]:5000''"
  by code_simp

lemma new_OutboundPeer1:
  "new_OutboundPeer peerInfo1 cfg now =
     Inr ((Peer_init ''[0:0:0:0:0:0:0:1]:5000'' peerInfo1 cfg now)\<lparr>kind := Outbound\<rparr>)"
  by (simp add: new_OutboundPeer_def new_Peer_def peerInfo1_def peerId1)

lemma addOutboundPeer_fresh:
  "outboundPeerMap s peerId = None \<Longrightarrow> pool_nodeInfo s = None \<Longrightarrow>
   new_OutboundPeer info (pool_peerConfig s) now = Inr p \<Longrightarrow>
   addOutboundPeer now peerId info s =
     (Inr (nextRef s),
      s\<lparr>sessions := (sessions s)(nextRef s \<mapsto> bindHandlersToPeer p),
        nextRef := nextRef s + 1,
        outboundPeerMap := (outboundPeerMap s)(peer_id p \<mapsto> nextRef s)\<rparr>)"
  by (simp add: addOutboundPeer_def allocate_def Let_def onSession_def applyNodeInfoOnPeer_def)

lemma pool0_fields:
  "outboundPeerMap pool0 = Map.empty" "inboundPeerMap pool0 = Map.empty"
  "pool_nodeInfo pool0 = None" "nextRef pool0 = 0" "pool_emitted pool0 = []"
  "sessions pool0 = Map.empty"
  by (simp_all add: pool0_def new_PeerPool_def)

lemma poolOnce_eval:
  "fst (addOutboundPeer 1 ''[::1]:5000'' peerInfo1 pool0) = Inr 0"
  "outboundPeerMap poolOnce = [''[0:0:0:0:0:0:0:1]:5000'' \<mapsto> 0]"
  "nextRef poolOnce = 1"
  "pool_nodeInfo poolOnce = None"
  unfolding poolOnce_def
  by (simp_all add: addOutboundPeer_fresh [OF _ _ new_OutboundPeer1] pool0_fields Peer_init_def)

text \<open>
  Against C9 as stated (for every peerId and peerInfo): with the peerId \<open>[::1]:5000\<close> the
  first session is stored under its own id \<open>[0:0:0:0:0:0:0:1]:5000\<close>, so the second call
  finds nothing under \<open>[::1]:5000\<close>, makes a second session and stores it in place of the
  first.
\<close>

theorem addOutboundPeer_twice_counterexample:
  "fst (addOutboundPeer 1 ''[::1]:5000'' peerInfo1 pool0) = Inr 0 \<and>
   outboundPeerMap poolOnce ''[0:0:0:0:0:0:0:1]:5000'' = Some 0 \<and>
   fst (addOutboundPeer 1 ''[::1]:5000'' peerInfo1 poolOnce) = Inr 1 \<and>
   outboundPeerMap poolTwice ''[0:0:0:0:0:0:0:1]:5000'' = Some 1 \<and>
   nextRef poolOnce = 1 \<and> nextRef poolTwice = 2"
proof -
  have n: "outboundPeerMap poolOnce ''[::1]:5000'' = None"
    by (simp add: poolOnce_eval)
  note second = addOutboundPeer_fresh [OF n poolOnce_eval(4) new_OutboundPeer1, of 1]
  show ?thesis
    by (simp add: poolOnce_eval poolTwice_def second Peer_init_def)
qed

text \<open>The same peer added under the id its session has.\<close>

definition poolNormalized :: pool where
  "poolNormalized = snd (addOutboundPeer 1 ''[0:0:0:0:0:0:0:1]:5000'' peerInfo1 pool0)"

lemma poolNormalized_eval:
  "addOutboundPeer 1 ''[0:0:0:0:0:0:0:1]:5000'' peerInfo1 pool0 = (Inr 0, poolNormalized)"
  by (simp add: poolNormalized_def pool0_def new_PeerPool_def addOutboundPeer_def
        new_OutboundPeer1 allocate_def Let_def)

theorem addOutboundPeer_twice_witness:
  "getPeerIdFromPeerInfo (ipAddress peerInfo1) (wsPort peerInfo1) = Inr ''[0:0:0:0:0:0:0:1]:5000'' \<and>
   addOutboundPeer 1 ''[0:0:0:0:0:0:0:1]:5000'' peerInfo1 pool0 = (Inr 0, poolNormalized) \<and>
   outboundPeerMap poolNormalized ''[0:0:0:0:0:0:0:1]:5000'' = Some 0 \<and>
   addOutboundPeer 9 ''[0:0:0:0:0:0:0:1]:5000'' peerInfo1 poolNormalized = (Inr 0, poolNormalized)"
proof -
  have i: "getPeerIdFromPeerInfo (ipAddress peerInfo1) (wsPort peerInfo1) =
      Inr ''[0:0:0:0:0:0:0:1]:5000''"
    by (simp add: peerInfo1_def peerId1)
  from addOutboundPeer_twice [OF i poolNormalized_eval, of 9 peerInfo1] i poolNormalized_eval
  show ?thesis by simp
qed

subsection \<open>Removing a peer\<close>

text \<open>A pool with one outbound session, and the same pool after that session is removed.\<close>

definition poolDialled :: pool where
  "poolDialled = snd (addOutboundPeer 1 ''127.0.0.1:5000'' peerInfo0 pool0)"

definition poolRemoved :: pool where
  "poolRemoved = snd (removeOutboundPeer ''127.0.0.1:5000'' (Code 1000) NoReason poolDialled)"

lemma bind_then_unbind:
  "listeners p = [] \<Longrightarrow>
   listeners (unbindHandlersFromPeer (f (bindHandlersToPeer p))) =
     [(''outboundSocketError'', HandlePeerOutboundSocketError),
      (''inboundSocketError'', HandlePeerInboundSocketError)]"
  if "\<And>q. listeners (f q) = listeners q"
  using that
  by (simp add: unbindHandlersFromPeer_def bindHandlersToPeer_def boundHandlers_def
        unboundHandlers_def on_def removeListener_def)

lemma disconnect_listeners: "listeners (disconnect c r p) = listeners p"
  by (auto simp: disconnect_def Peer_disconnect_def Let_def split: option.splits peer_kind.splits)

lemma poolDialled_eval:
  "outboundPeerMap poolDialled = [''127.0.0.1:5000'' \<mapsto> 0]"
  "sessions poolDialled 0 =
     Some (bindHandlersToPeer ((Peer_init ''127.0.0.1:5000'' peerInfo0 peerConfig0 1)\<lparr>kind := Outbound\<rparr>))"
  "pool_emitted poolDialled = []"
proof -
  have p: "new_OutboundPeer peerInfo0 (pool_peerConfig pool0) 1 =
      Inr ((Peer_init ''127.0.0.1:5000'' peerInfo0 peerConfig0 1)\<lparr>kind := Outbound\<rparr>)"
    by (simp add: new_OutboundPeer_def new_Peer_def peerInfo0_def peerId0 pool0_def
        new_PeerPool_def)
  have n: "outboundPeerMap pool0 ''127.0.0.1:5000'' = None" by (simp add: pool0_fields)
  note a = addOutboundPeer_fresh [OF n pool0_fields(3) p]
  show "outboundPeerMap poolDialled = [''127.0.0.1:5000'' \<mapsto> 0]"
    "sessions poolDialled 0 =
     Some (bindHandlersToPeer ((Peer_init ''127.0.0.1:5000'' peerInfo0 peerConfig0 1)\<lparr>kind := Outbound\<rparr>))"
    "pool_emitted poolDialled = []"
    by (simp_all add: poolDialled_def a pool0_fields Peer_init_def)
qed

lemma bindHandlersToPeer_listeners:
  "listeners (bindHandlersToPeer p) = listeners p @ boundHandlers"
  by (simp add: bindHandlersToPeer_def boundHandlers_def on_def)

lemma unbindHandlersFromPeer_bound:
  "listeners p = boundHandlers \<Longrightarrow>
   listeners (unbindHandlersFromPeer p) =
     [(''outboundSocketError'', HandlePeerOutboundSocketError),
      (''inboundSocketError'', HandlePeerInboundSocketError)]"
  by (simp add: unbindHandlersFromPeer_def boundHandlers_def unboundHandlers_def
        removeListener_def)

text \<open>
  Claim C10 on a pool with one outbound session: \<open>removeOutboundPeer\<close> returns true,
  deletes the key and emits one \<open>removePeer\<close>, but of the sixteen handlers the pool bound
  to the session, the two socket-error handlers are still bound afterwards:
  \<open>_unbindHandlersFromPeer\<close> does not remove them.
\<close>

theorem removeOutboundPeer_leaves_listeners:
  "fst (removeOutboundPeer ''127.0.0.1:5000'' (Code 1000) NoReason poolDialled) = True \<and>
   outboundPeerMap poolDialled ''127.0.0.1:5000'' = Some 0 \<and>
   outboundPeerMap poolRemoved ''127.0.0.1:5000'' = None \<and>
   pool_emitted poolRemoved = [EVENT_REMOVE_PEER ''127.0.0.1:5000''] \<and>
   map_option listeners (sessions poolDialled 0) = Some boundHandlers \<and>
   map_option listeners (sessions poolRemoved 0) =
     Some [(''outboundSocketError'', HandlePeerOutboundSocketError),
           (''inboundSocketError'', HandlePeerInboundSocketError)]"
proof -
  let ?p = "bindHandlersToPeer ((Peer_init ''127.0.0.1:5000'' peerInfo0 peerConfig0 1)\<lparr>kind := Outbound\<rparr>)"
  have l: "listeners ?p = boundHandlers"
    by (simp add: bindHandlersToPeer_listeners Peer_init_def)
  then have u: "listeners (unbindHandlersFromPeer (disconnect (Code 1000) NoReason ?p)) =
     [(''outboundSocketError'', HandlePeerOutboundSocketError),
      (''inboundSocketError'', HandlePeerInboundSocketError)]"
    by (intro unbindHandlersFromPeer_bound) (simp add: disconnect_listeners)
  show ?thesis
    by (simp add: poolRemoved_def removeOutboundPeer_def Let_def poolDialled_eval onSession_def
        pool_emit_def l u)
qed


section \<open>Validation (src/validation.js)\<close>

subsection \<open>Conversions of the platform\<close>

text \<open>
  \<open>Number.prototype.toString\<close>. A number is printed from its decimal digits \<open>s\<close> and the
  position \<open>n\<close> of the decimal point, as the language defines it: plain digits up to 21
  places, a fraction down to six leading zeros, an exponent otherwise. The digits are
  those of the exact value; a rational with no finite decimal form is cut after 1100
  places.
\<close>

fun decimalScale :: "nat \<Rightarrow> rat \<Rightarrow> nat \<Rightarrow> nat \<times> nat" where
  "decimalScale 0 q p = (nat \<lfloor>q\<rfloor>, p)"
| "decimalScale (Suc fuel) q p =
     (if q = of_int \<lfloor>q\<rfloor> then (nat \<lfloor>q\<rfloor>, p) else decimalScale fuel (q * 10) (Suc p))"

definition stripTrailingZeros :: "string \<Rightarrow> string" where
  "stripTrailingZeros s = rev (dropWhile (\<lambda>c. c = CHR ''0'') (rev s))"

definition exponentPart :: "int \<Rightarrow> string" where
  "exponentPart e = ''e'' @ (if e < 0 then ''-'' else ''+'') @ string_of_nat (nat \<bar>e\<bar>)"

definition positiveToString :: "rat \<Rightarrow> string" where
  "positiveToString q =
     (let (N, p) = decimalScale 1100 q 0;
          D = string_of_nat N;
          s = stripTrailingZeros D;
          k = int (length s);
          n = int (length D) - int p
      in if s = [] then ''0''
         else if k \<le> n \<and> n \<le> 21 then s @ replicate (nat (n - k)) CHR ''0''
         else if 0 < n \<and> n \<le> 21 then take (nat n) s @ ''.'' @ drop (nat n) s
         else if - 6 < n \<and> n \<le> 0 then ''0.'' @ replicate (nat (- n)) CHR ''0'' @ s
         else if k = 1 then s @ exponentPart (n - 1)
         else take 1 s @ ''.'' @ drop 1 s @ exponentPart (n - 1))"

fun numberToString :: "number \<Rightarrow> string" where
  "numberToString NaN = ''NaN''"
| "numberToString Infinity = ''Infinity''"
| "numberToString NegInfinity = ''-Infinity''"
| "numberToString (Num q) =
     (if q = 0 then ''0'' else if q < 0 then ''-'' @ positiveToString (- q) else positiveToString q)"

text \<open>
  \<open>v.toString()\<close> on a value that is neither \<open>undefined\<close> nor \<open>null\<close> (on those the call
  throws). An array joins its elements with commas, \<open>undefined\<close> and \<open>null\<close> as empty
  strings. An object prints as \<open>[object Object]\<close>, unless it has a property \<open>toString\<close> of
  its own: that is data and cannot be called.
\<close>

fun toStringJS :: "jsval \<Rightarrow> error + string"
  and toStringElements :: "jsval list \<Rightarrow> error + string list" where
  "toStringJS JUndefined = Inl (TypeError ''Cannot read property toString of undefined'')"
| "toStringJS JNull = Inl (TypeError ''Cannot read property toString of null'')"
| "toStringJS (JBool b) = Inr (if b then ''true'' else ''false'')"
| "toStringJS (JNum x) = Inr (numberToString x)"
| "toStringJS (JStr s) = Inr s"
| "toStringJS (JArr xs) =
     (case toStringElements xs of Inl e \<Rightarrow> Inl e | Inr parts \<Rightarrow> Inr (join '','' parts))"
| "toStringJS (JObj kvs) =
     (if map_of kvs ''toString'' \<noteq> None then Inl (TypeError ''toString is not a function'')
      else Inr ''[object Object]'')"
| "toStringElements [] = Inr []"
| "toStringElements (x # xs) =
     (case (if x = JUndefined \<or> x = JNull then Inr [] else toStringJS x) of
        Inl e \<Rightarrow> Inl e
      | Inr t \<Rightarrow> (case toStringElements xs of Inl e \<Rightarrow> Inl e | Inr ts \<Rightarrow> Inr (t # ts)))"

text \<open>
  The conversion of a string to a number (unary plus): white space is trimmed, the empty
  string is 0, then a radix literal without sign, or a signed \<open>Infinity\<close> or decimal
  literal with an optional fraction and exponent; anything else is \<open>NaN\<close>.
\<close>

definition trim :: "string \<Rightarrow> string" where
  "trim s = rev (dropWhile isWhiteSpace (rev (dropWhile isWhiteSpace s)))"

definition radixLiteral :: "nat \<Rightarrow> string \<Rightarrow> number" where
  "radixLiteral radix ds =
     (if ds \<noteq> [] \<and> list_all (\<lambda>c. isHexDigit c \<and> digitValue c < radix) ds
      then Num (of_nat (digitsValue radix ds)) else NaN)"

definition exponentValue :: "string \<Rightarrow> int option" where
  "exponentValue r =
     (if r = [] then Some 0
      else if take 1 r = ''e'' \<or> take 1 r = ''E'' then
        (let r1 = drop 1 r;
             neg = (take 1 r1 = ''-'');
             ds = (if take 1 r1 = ''-'' \<or> take 1 r1 = ''+'' then drop 1 r1 else r1)
         in if ds \<noteq> [] \<and> list_all isDigit ds
            then Some ((if neg then - 1 else 1) * int (digitsValue 10 ds)) else None)
      else None)"

definition decimalLiteral :: "string \<Rightarrow> rat option" where
  "decimalLiteral u =
     (let intDigits = takeWhile isDigit u;
          r1 = dropWhile isDigit u;
          dotted = (take 1 r1 = ''.'');
          fracDigits = (if dotted then takeWhile isDigit (drop 1 r1) else []);
          r2 = (if dotted then dropWhile isDigit (drop 1 r1) else r1)
      in if intDigits = [] \<and> fracDigits = [] then None
         else (case exponentValue r2 of
                 None \<Rightarrow> None
               | Some e \<Rightarrow>
                   Some ((of_nat (digitsValue 10 intDigits) +
                          of_nat (digitsValue 10 fracDigits) / 10 ^ length fracDigits) *
                         (if e < 0 then 1 / 10 ^ nat (- e) else 10 ^ nat e))))"

definition stringToNumber :: "string \<Rightarrow> number" where
  "stringToNumber s =
     (let t = trim s
      in if t = [] then Num 0
         else if take 2 t = ''0x'' \<or> take 2 t = ''0X'' then radixLiteral 16 (drop 2 t)
         else if take 2 t = ''0o'' \<or> take 2 t = ''0O'' then radixLiteral 8 (drop 2 t)
         else if take 2 t = ''0b'' \<or> take 2 t = ''0B'' then radixLiteral 2 (drop 2 t)
         else
           (let neg = (take 1 t = ''-'');
                u = (if take 1 t = ''-'' \<or> take 1 t = ''+'' then drop 1 t else t)
            in if u = ''Infinity'' then (if neg then NegInfinity else Infinity)
               else (case decimalLiteral u of
                       None \<Rightarrow> NaN
                     | Some q \<Rightarrow> Num (if neg then - q else q))))"

text \<open>Unary plus: an array or object is converted through its string.\<close>

fun toNumber :: "jsval \<Rightarrow> error + number" where
  "toNumber JUndefined = Inr NaN"
| "toNumber JNull = Inr (Num 0)"
| "toNumber (JBool b) = Inr (Num (if b then 1 else 0))"
| "toNumber (JNum x) = Inr x"
| "toNumber (JStr s) = Inr (stringToNumber s)"
| "toNumber v = (case toStringJS v of Inl e \<Rightarrow> Inl e | Inr s \<Rightarrow> Inr (stringToNumber s))"

text \<open>
  A value inside a template string: \<open>undefined\<close> and \<open>null\<close> print as their names.
\<close>

definition interpolate :: "jsval \<Rightarrow> error + string" where
  "interpolate v =
     (if v = JUndefined then Inr ''undefined'' else if v = JNull then Inr ''null''
      else toStringJS v)"

subsection \<open>\<open>JSON.stringify\<close> and the byte size\<close>

definition hexDigitUpper :: "nat \<Rightarrow> char" where
  "hexDigitUpper d = ''0123456789abcdef'' ! d"

definition escapeChar :: "char \<Rightarrow> string" where
  "escapeChar c =
     (let n = (of_char c :: nat)
      in if n = 34 then [CHR 0x5C, CHR 0x22]
         else if n = 92 then [CHR 0x5C, CHR 0x5C]
         else if n = 8 then [CHR 0x5C, CHR ''b'']
         else if n = 9 then [CHR 0x5C, CHR ''t'']
         else if n = 10 then [CHR 0x5C, CHR ''n'']
         else if n = 12 then [CHR 0x5C, CHR ''f'']
         else if n = 13 then [CHR 0x5C, CHR ''r'']
         else if n < 32 then [CHR 0x5C, CHR ''u'', CHR ''0'', CHR ''0'',
                              hexDigitUpper (n div 16), hexDigitUpper (n mod 16)]
         else [c])"

definition quoteJSON :: "string \<Rightarrow> string" where
  "quoteJSON s = [CHR 0x22] @ concat (map escapeChar s) @ [CHR 0x22]"

text \<open>
  \<open>JSON.stringify\<close>: \<open>None\<close> is the result \<open>undefined\<close>. Inside an array \<open>undefined\<close>
  prints as \<open>null\<close>; inside an object a property with value \<open>undefined\<close> is left out.
\<close>

fun stringify :: "jsval \<Rightarrow> string option"
  and stringifyElements :: "jsval list \<Rightarrow> string list"
  and stringifyProperties :: "(string \<times> jsval) list \<Rightarrow> string list" where
  "stringify JUndefined = None"
| "stringify JNull = Some ''null''"
| "stringify (JBool b) = Some (if b then ''true'' else ''false'')"
| "stringify (JNum x) = Some (case x of Num q \<Rightarrow> numberToString x | _ \<Rightarrow> ''null'')"
| "stringify (JStr s) = Some (quoteJSON s)"
| "stringify (JArr xs) = Some (''['' @ join '','' (stringifyElements xs) @ '']'')"
| "stringify (JObj kvs) = Some (''{'' @ join '','' (stringifyProperties kvs) @ ''}'')"
| "stringifyElements [] = []"
| "stringifyElements (x # xs) =
     (case stringify x of None \<Rightarrow> ''null'' | Some t \<Rightarrow> t) # stringifyElements xs"
| "stringifyProperties [] = []"
| "stringifyProperties ((k, v) # kvs) =
     (case stringify v of
        None \<Rightarrow> stringifyProperties kvs
      | Some t \<Rightarrow> (quoteJSON k @ '':'' @ t) # stringifyProperties kvs)"



subsection \<open>The library predicates\<close>

text \<open>
  \<open>isIP\<close>, \<open>isPort\<close> and \<open>isNumeric\<close> of the package validator (10.11.0) and \<open>valid\<close> of the
  package semver (5.6.0), on strings. The first three throw a TypeError on a value that
  is not a string; \<open>valid\<close> answers \<open>null\<close> on such a value.
\<close>

definition isIP4 :: "string \<Rightarrow> bool" where
  "isIP4 str = (isDottedQuad str \<and> list_all (\<lambda>p. digitsValue 10 p \<le> 255) (split_on CHR ''.'' str))"

definition ipv6Block :: "string \<Rightarrow> bool" where
  "ipv6Block b = (b \<noteq> [] \<and> length b \<le> 4 \<and> list_all isHexDigit b)"

text \<open>
  The loop over the blocks of an IPv6 candidate: \<open>i\<close> is the index, \<open>n\<close> the number of
  blocks, \<open>found\<close> whether a \<open>::\<close> was seen. \<open>None\<close> is the early \<open>return false\<close>.
\<close>

fun checkBlocks :: "bool \<Rightarrow> nat \<Rightarrow> nat \<Rightarrow> bool \<Rightarrow> string list \<Rightarrow> bool option" where
  "checkBlocks v4 n i found [] = Some found"
| "checkBlocks v4 n i found (b # bs) =
     (if b = [] \<and> 0 < i \<and> i < n - 1 then
        (if found then None else checkBlocks v4 n (i + 1) True bs)
      else if v4 \<and> i = n - 1 then checkBlocks v4 n (i + 1) found bs
      else if \<not> ipv6Block b then None
      else checkBlocks v4 n (i + 1) found bs)"

definition isIP6 :: "string \<Rightarrow> bool" where
  "isIP6 str =
     (let blocks = split_on CHR '':'' str;
          foundIPv4TransitionBlock = isIP4 (last blocks);
          expectedNumberOfBlocks = (if foundIPv4TransitionBlock then 7 else 8 :: nat)
      in if length blocks > expectedNumberOfBlocks then False
         else if str = ''::'' then True
         else
           (let leading = (take 2 str = ''::'');
                trailing = (\<not> leading \<and> drop (length str - 2) str = ''::'');
                blocks1 = (if leading then drop 2 blocks
                           else if trailing then take (length blocks - 2) blocks else blocks)
            in case checkBlocks foundIPv4TransitionBlock (length blocks1) 0
                      (leading \<or> trailing) blocks1 of
                 None \<Rightarrow> False
               | Some foundOmissionBlock \<Rightarrow>
                   if foundOmissionBlock then length blocks1 \<ge> 1
                   else length blocks1 = expectedNumberOfBlocks))"

definition assertString :: "jsval \<Rightarrow> error + string" where
  "assertString v =
     (case v of
        JStr s \<Rightarrow> Inr s
      | _ \<Rightarrow> Inl (TypeError ''This library (validator.js) validates strings only''))"

definition isIP :: "jsval \<Rightarrow> error + bool" where
  "isIP v = (case assertString v of Inl e \<Rightarrow> Inl e | Inr str \<Rightarrow> Inr (isIP4 str \<or> isIP6 str))"

text \<open>\<open>isPort\<close>: an optional sign and digits, with a value from 0 to 65535.\<close>

definition isPort :: "string \<Rightarrow> bool" where
  "isPort str =
     (let neg = (take 1 str = ''-'');
          ds = (if take 1 str = ''-'' \<or> take 1 str = ''+'' then drop 1 str else str)
      in ds \<noteq> [] \<and> list_all isDigit ds \<and>
         (if neg then digitsValue 10 ds = 0 else digitsValue 10 ds \<le> 65535))"

text \<open>\<open>isNumeric\<close>: \<open>/^[+-]?([0-9]*[.])?[0-9]+$/\<close>.\<close>

definition isNumeric :: "string \<Rightarrow> bool" where
  "isNumeric str =
     (let u = (if take 1 str = ''-'' \<or> take 1 str = ''+'' then drop 1 str else str);
          a = takeWhile isDigit u;
          r = dropWhile isDigit u
      in if r = [] then a \<noteq> []
         else take 1 r = ''.'' \<and> drop 1 r \<noteq> [] \<and> list_all isDigit (drop 1 r))"

text \<open>
  \<open>valid\<close>: at most 256 characters, an optional \<open>v\<close>, three numeric identifiers without
  leading zeros and within the safe integers, then an optional prerelease (after \<open>-\<close>) and
  build (after \<open>+\<close>), each a list of identifiers joined by dots.
\<close>

definition isAlnumHyphen :: "char \<Rightarrow> bool" where
  "isAlnumHyphen c =
     (isDigit c \<or> (CHR ''a'' \<le> c \<and> c \<le> CHR ''z'') \<or> (CHR ''A'' \<le> c \<and> c \<le> CHR ''Z'') \<or>
      c = CHR ''-'')"

definition numericIdentifier :: "string \<Rightarrow> bool" where
  "numericIdentifier p = (p \<noteq> [] \<and> list_all isDigit p \<and> (length p = 1 \<or> hd p \<noteq> CHR ''0''))"

definition prereleaseIdentifier :: "string \<Rightarrow> bool" where
  "prereleaseIdentifier p =
     (numericIdentifier p \<or> (p \<noteq> [] \<and> list_all isAlnumHyphen p \<and> \<not> list_all isDigit p))"

definition buildIdentifier :: "string \<Rightarrow> bool" where
  "buildIdentifier p = (p \<noteq> [] \<and> list_all isAlnumHyphen p)"

definition MAX_SAFE_INTEGER :: nat where
  "MAX_SAFE_INTEGER = 9007199254740991"

definition validSemver :: "string \<Rightarrow> bool" where
  "validSemver version =
     (let v1 = (if take 1 version = ''v'' then drop 1 version else version);
          main = takeWhile (\<lambda>c. c \<noteq> CHR ''-'' \<and> c \<noteq> CHR ''+'') v1;
          rest = dropWhile (\<lambda>c. c \<noteq> CHR ''-'' \<and> c \<noteq> CHR ''+'') v1;
          hasPre = (take 1 rest = ''-'');
          pre = (if hasPre then takeWhile (\<lambda>c. c \<noteq> CHR ''+'') (drop 1 rest) else []);
          rest2 = (if hasPre then dropWhile (\<lambda>c. c \<noteq> CHR ''+'') (drop 1 rest) else rest);
          nums = split_on CHR ''.'' main
      in length version \<le> 256 \<and>
         length nums = 3 \<and> list_all numericIdentifier nums \<and>
         list_all (\<lambda>p. digitsValue 10 p \<le> MAX_SAFE_INTEGER) nums \<and>
         (if hasPre then list_all prereleaseIdentifier (split_on CHR ''.'' pre) else True) \<and>
         (if rest2 = [] then True else list_all buildIdentifier (split_on CHR ''.'' (drop 1 rest2))))"

definition isValidVersion :: "jsval \<Rightarrow> bool" where
  "isValidVersion v = (case v of JStr s \<Rightarrow> validSemver s | _ \<Rightarrow> False)"

subsection \<open>The validators of peer info\<close>

definition validatePeerAddress :: "jsval \<Rightarrow> jsval \<Rightarrow> error + bool" where
  "validatePeerAddress ip port =
     (case isIP ip of
        Inl e \<Rightarrow> Inl e
      | Inr ipOk \<Rightarrow>
          if \<not> ipOk then Inr False
          else (case toStringJS port of Inl e \<Rightarrow> Inl e | Inr str \<Rightarrow> Inr (isPort str)))"

text \<open>
  The two \<open>InvalidPeerError\<close>s with their messages; building a message can itself throw,
  and then that error is the one thrown.
\<close>

definition invalidAddressError :: "jsval \<Rightarrow> jsval \<Rightarrow> error" where
  "invalidAddressError ip port =
     (case interpolate ip of
        Inl e \<Rightarrow> e
      | Inr a \<Rightarrow>
          (case interpolate port of
             Inl e \<Rightarrow> e
           | Inr b \<Rightarrow>
               InvalidPeerError
                 (''Invalid peer ip or port for peer with ip: '' @ a @ '' and wsPort '' @ b)))"

definition invalidVersionError :: "jsval \<Rightarrow> jsval \<Rightarrow> jsval \<Rightarrow> error" where
  "invalidVersionError ip port version =
     (case interpolate ip of
        Inl e \<Rightarrow> e
      | Inr a \<Rightarrow>
          (case interpolate port of
             Inl e \<Rightarrow> e
           | Inr b \<Rightarrow>
               (case interpolate version of
                  Inl e \<Rightarrow> e
                | Inr c \<Rightarrow>
                    InvalidPeerError
                      (''Invalid peer version for peer with ip: '' @ a @ '', wsPort '' @ b @
                       '' and version '' @ c))))"

text \<open>
  \<open>protocolPeer.height && isNumeric(protocolPeer.height.toString()) ? +protocolPeer.height : 0\<close>
\<close>

definition heightOf :: "jsval \<Rightarrow> error + number" where
  "heightOf h =
     (if \<not> truthy h then Inr (Num 0)
      else (case toStringJS h of
              Inl e \<Rightarrow> Inl e
            | Inr str \<Rightarrow> if isNumeric str then toNumber h else Inr (Num 0)))"

text \<open>The own properties of a value, for the object spread.\<close>

fun ownProperties :: "jsval \<Rightarrow> (string \<times> jsval) list" where
  "ownProperties (JObj kvs) = kvs"
| "ownProperties v = []"

definition validatePeerInfoSchema :: "jsval \<Rightarrow> error + jsval" where
  "validatePeerInfoSchema rawPeerInfo =
     (if \<not> truthy rawPeerInfo then Inl (InvalidPeerError ''Invalid peer object'')
      else
        (let protocolPeer = rawPeerInfo;
             ip = getProp protocolPeer ''ip'';
             port = getProp protocolPeer ''wsPort''
         in case (if \<not> truthy ip \<or> \<not> truthy port then Inr False
                  else validatePeerAddress ip port) of
              Inl e \<Rightarrow> Inl e
            | Inr addressOk \<Rightarrow>
                if \<not> addressOk then Inl (invalidAddressError ip port)
                else if \<not> truthy (getProp protocolPeer ''version'') \<or>
                        \<not> isValidVersion (getProp protocolPeer ''version'')
                then Inl (invalidVersionError ip port (getProp protocolPeer ''version''))
                else
                  (let version = getProp protocolPeer ''version'';
                       protocolVersion = getProp protocolPeer ''protocolVersion''
                   in case toNumber port of
                        Inl e \<Rightarrow> Inl e
                      | Inr portNumber \<Rightarrow>
                          (let os = (if truthy (getProp protocolPeer ''os'')
                                     then getProp protocolPeer ''os'' else JStr [])
                           in case heightOf (getProp protocolPeer ''height'') of
                                Inl e \<Rightarrow> Inl e
                              | Inr height \<Rightarrow>
                                  (let protocolPeerWithoutOptions =
                                         AList.delete ''options'' (ownProperties protocolPeer);
                                       peerInfo =
                                         AList.update ''protocolVersion'' protocolVersion
                                          (AList.update ''version'' version
                                           (AList.update ''os'' os
                                            (AList.update ''height'' (JNum height)
                                             (AList.update ''wsPort'' (JNum portNumber)
                                              (AList.update ''ipAddress'' ip
                                                protocolPeerWithoutOptions)))))
                                   in Inr (JObj (AList.delete ''ip'' peerInfo)))))))"



definition rawPeerInfoNegative :: jsval where
  "rawPeerInfoNegative =
     JObj [(''ip'', JStr ''1.2.3.4''), (''wsPort'', JNum (Num 5000)), (''version'', JStr ''1.0.1''),
           (''height'', JNum (Num (- 5)))]"

subsection \<open>Properties of the validators\<close>




























lemma rawPeerInfo0_address:
  "isIP (JStr ''1.2.3.4'') = Inr True"
  "toStringJS (JNum (Num 5000)) = Inr ''5000''"
  by code_simp+

lemma isPort_5000: "isPort ''5000''"
  by (simp add: isPort_def isDigit_def digitsValue_def digitValue_def less_eq_char_def)

lemma isValidVersion_1_0_1: "isValidVersion (JStr ''1.0.1'')"
  by (simp add: isValidVersion_def validSemver_def numericIdentifier_def isDigit_def
      digitsValue_def digitValue_def less_eq_char_def MAX_SAFE_INTEGER_def)



lemma positiveToString_5000: "positiveToString 5000 = ''5000''"
  using rawPeerInfo0_address(2) by simp




text \<open>
  A height given as a negative number is numeric for \<open>isNumeric\<close> and is kept as it is.
\<close>

lemma heightOf_negative: "heightOf (JNum (Num (- 5))) = Inr (Num (- 5))"
  by code_simp

lemma validatePeerInfoSchema_negative_height:
  "validatePeerInfoSchema rawPeerInfoNegative =
     Inr (JObj [(''wsPort'', JNum (Num 5000)), (''version'', JStr ''1.0.1''),
                (''height'', JNum (Num (- 5))), (''ipAddress'', JStr ''1.2.3.4''),
                (''os'', JStr []), (''protocolVersion'', JUndefined)])"
  unfolding validatePeerInfoSchema_def rawPeerInfoNegative_def Let_def
  by (simp add: validatePeerAddress_def rawPeerInfo0_address isPort_5000 isValidVersion_1_0_1
      heightOf_negative positiveToString_5000 AList.delete_eq)



end
